theory Spec2Isabelle
  imports Complex_Main
begin

section \<open>JavaScript values as the column code sees them\<close>

text \<open>
  A cell of a column is a number, a string or null. A JavaScript number is an IEEE double:
  here it is \<open>NaN\<close>, one of the two infinities, or a finite value carried as the real
  number it denotes (the two zeros are not told apart). Where the code computes a number
  from others or reads it from a string, the result is rounded to a double.
\<close>

datatype jsnum = NaN | NegInf | Fin real | PosInf

datatype jsvalue = JSNumber jsnum | JSString string | JSNull

text \<open>The relational operators on numbers: every comparison with \<open>NaN\<close> is false.\<close>

fun js_less :: "jsnum \<Rightarrow> jsnum \<Rightarrow> bool" where
  "js_less NaN b = False"
| "js_less a NaN = False"
| "js_less PosInf b = False"
| "js_less a NegInf = False"
| "js_less NegInf b = True"
| "js_less a PosInf = True"
| "js_less (Fin x) (Fin y) = (x < y)"

definition js_greater :: "jsnum \<Rightarrow> jsnum \<Rightarrow> bool" where
  "js_greater a b = js_less b a"

fun js_less_eq :: "jsnum \<Rightarrow> jsnum \<Rightarrow> bool" where
  "js_less_eq NaN b = False"
| "js_less_eq a NaN = False"
| "js_less_eq a b = (if a = b then True else js_less a b)"

definition js_greater_eq :: "jsnum \<Rightarrow> jsnum \<Rightarrow> bool" where
  "js_greater_eq a b = js_less_eq b a"

text \<open>\<open>===\<close> on numbers: \<open>NaN\<close> equals nothing, itself included.\<close>

definition num_strict_equals :: "jsnum \<Rightarrow> jsnum \<Rightarrow> bool" where
  "num_strict_equals a b = (if a = NaN then False else a = b)"

text \<open>\<open>===\<close> on cells: same type and same value.\<close>

fun strict_equals :: "jsvalue \<Rightarrow> jsvalue \<Rightarrow> bool" where
  "strict_equals (JSNumber a) (JSNumber b) = num_strict_equals a b"
| "strict_equals (JSString s) (JSString t) = (s = t)"
| "strict_equals JSNull JSNull = True"
| "strict_equals a b = False"

text \<open>\<open>typeof value === 'number'\<close>.\<close>

fun typeof_number :: "jsvalue \<Rightarrow> bool" where
  "typeof_number (JSNumber n) = True"
| "typeof_number v = False"

subsection \<open>Rounding to a double\<close>

text \<open>
  The result of \<open>/\<close> and \<open>*\<close>, and the value of a numeric literal, is the exact result
  rounded to the nearest double, a tie going to the even significand. A double has 53 significant bits and a binary exponent
  between -1022 and 1023; below the smallest exponent the doubles are evenly spaced, and
  a result that rounds to \<open>2 ^ 1024\<close> or beyond is an infinity.
\<close>

definition pow2 :: "int \<Rightarrow> real" where
  "pow2 e = (if 0 \<le> e then 2 ^ nat e else 1 / 2 ^ nat (- e))"

text \<open>How often a number from 1 on is halved until it is below 2, within \<open>n\<close> steps.\<close>

primrec halvings :: "nat \<Rightarrow> real \<Rightarrow> nat" where
  "halvings 0 x = 0"
| "halvings (Suc n) x = (if x < 2 then 0 else Suc (halvings n (x / 2)))"

text \<open>How often a positive number below 1 is doubled until it reaches 1, within \<open>n\<close> steps.\<close>

primrec doublings :: "nat \<Rightarrow> real \<Rightarrow> nat" where
  "doublings 0 x = 0"
| "doublings (Suc n) x = (if 1 \<le> x then 0 else Suc (doublings n (x * 2)))"

text \<open>The binary exponent of a positive number, kept between -1022 and 1024.\<close>

definition exponentOf :: "real \<Rightarrow> int" where
  "exponentOf x = (if 1 \<le> x then int (halvings 1024 x) else - int (doublings 1022 x))"

definition roundHalfEven :: "real \<Rightarrow> int" where
  "roundHalfEven x =
     (let f = \<lfloor>x\<rfloor>; d = x - of_int f in
      if d < 1 / 2 then f else if 1 / 2 < d then f + 1 else if even f then f else f + 1)"

text \<open>The distance between neighbouring doubles around a number.\<close>

definition quantum :: "real \<Rightarrow> real" where
  "quantum x = pow2 (exponentOf \<bar>x\<bar> - 52)"

definition roundToDouble :: "real \<Rightarrow> real" where
  "roundToDouble x =
     (if x = 0 then 0
      else sgn x * (of_int (roundHalfEven (\<bar>x\<bar> / quantum x)) * quantum x))"

definition toDouble :: "real \<Rightarrow> jsnum" where
  "toDouble x =
     (let r = roundToDouble x in
      if 2 ^ 1024 \<le> r then PosInf else if r \<le> - (2 ^ 1024) then NegInf else Fin r)"

subsection \<open>Strings to numbers\<close>

text \<open>
  A character of a string is a code unit below 256. The white space and the line
  terminators of JavaScript among them are tab, line feed, vertical tab, form feed,
  carriage return, space and the no-break space \<open>U+00A0\<close>.
\<close>

definition isWhiteSpace :: "char \<Rightarrow> bool" where
  "isWhiteSpace c =
     (c \<in> set [CHR 0x09, CHR 0x0A, CHR 0x0B, CHR 0x0C, CHR 0x0D, CHR 0x20, CHR 0xA0])"

definition trim :: "string \<Rightarrow> string" where
  "trim s = rev (dropWhile isWhiteSpace (rev (dropWhile isWhiteSpace s)))"

text \<open>The value of a digit in a radix up to 36 (letters in either case), if it is one.\<close>

definition digitValue :: "char \<Rightarrow> nat option" where
  "digitValue c =
     (let n = (of_char c :: nat) in
      if 48 \<le> n \<and> n \<le> 57 then Some (n - 48)
      else if 97 \<le> n \<and> n \<le> 122 then Some (n - 87)
      else if 65 \<le> n \<and> n \<le> 90 then Some (n - 55)
      else None)"

definition isDigitIn :: "nat \<Rightarrow> char \<Rightarrow> bool" where
  "isDigitIn radix c = (case digitValue c of None \<Rightarrow> False | Some d \<Rightarrow> d < radix)"

definition digitsValue :: "nat \<Rightarrow> string \<Rightarrow> nat" where
  "digitsValue radix ds = foldl (\<lambda>acc c. acc * radix + (case digitValue c of None \<Rightarrow> 0 | Some d \<Rightarrow> d)) 0 ds"

text \<open>An optional sign in front of a literal: the sign as a factor, and the rest.\<close>

fun stripSign :: "string \<Rightarrow> real \<times> string" where
  "stripSign [] = (1, [])"
| "stripSign (c # cs) =
     (if c = CHR ''-'' then (- 1, cs) else if c = CHR ''+'' then (1, cs) else (1, c # cs))"

text \<open>
  The exponent part of a decimal literal: empty, or \<open>e\<close>, an optional sign and at least
  one digit. The result is the power of ten to multiply with.
\<close>

definition exponentPart :: "string \<Rightarrow> real option" where
  "exponentPart s =
     (case s of
        [] \<Rightarrow> Some 1
      | c # cs \<Rightarrow>
          if c = CHR ''e'' \<or> c = CHR ''E'' then
            (let (sg, ds) = stripSign cs in
             if ds = [] then None
             else if list_all (isDigitIn 10) ds then
               Some (if sg < 0 then 1 / 10 ^ digitsValue 10 ds else 10 ^ digitsValue 10 ds)
             else None)
          else None)"

text \<open>
  An unsigned decimal literal: digits, an optional fraction, an optional exponent, with
  a digit on at least one side of the point.
\<close>

definition decimalLiteral :: "string \<Rightarrow> real option" where
  "decimalLiteral s =
     (let ip = takeWhile (isDigitIn 10) s;
          r1 = dropWhile (isDigitIn 10) s;
          hasPoint = (case r1 of [] \<Rightarrow> False | c # cs \<Rightarrow> c = CHR ''.'');
          r2 = (if hasPoint then tl r1 else r1);
          fp = (if hasPoint then takeWhile (isDigitIn 10) r2 else []);
          r3 = (if hasPoint then dropWhile (isDigitIn 10) r2 else r2)
      in if ip = [] \<and> fp = [] then None
         else (case exponentPart r3 of
                 None \<Rightarrow> None
               | Some p \<Rightarrow>
                   Some ((real (digitsValue 10 ip)
                          + real (digitsValue 10 fp) / 10 ^ length fp) * p)))"

text \<open>A literal with a radix prefix (\<open>0x\<close>, \<open>0o\<close>, \<open>0b\<close>): the digits must all be valid.\<close>

definition radixLiteral :: "string \<Rightarrow> jsnum option" where
  "radixLiteral s =
     (case s of
        z # p # ds \<Rightarrow>
          if z = CHR ''0'' then
            (let radix = (if p = CHR ''x'' \<or> p = CHR ''X'' then 16 :: nat
                          else if p = CHR ''o'' \<or> p = CHR ''O'' then 8
                          else if p = CHR ''b'' \<or> p = CHR ''B'' then 2 else 0)
             in if radix = 0 then None
                else if ds = [] then Some NaN
                else if list_all (isDigitIn radix) ds then Some (toDouble (real (digitsValue radix ds)))
                else Some NaN)
          else None
      | _ \<Rightarrow> None)"

text \<open>
  \<open>Number(string)\<close>: white space around the literal is dropped, the empty string is 0,
  and anything that is not a numeric literal is \<open>NaN\<close>.
\<close>

definition StringToNumber :: "string \<Rightarrow> jsnum" where
  "StringToNumber s =
     (let t = trim s in
      if t = [] then Fin 0
      else (case radixLiteral t of
              Some n \<Rightarrow> n
            | None \<Rightarrow>
                (let (sg, u) = stripSign t in
                 if u = ''Infinity'' then (if sg < 0 then NegInf else PosInf)
                 else (case decimalLiteral u of
                         None \<Rightarrow> NaN
                       | Some x \<Rightarrow> toDouble (sg * x)))))"

text \<open>\<open>Number(value)\<close>, also written \<open>+value\<close>: null is 0.\<close>

fun ToNumber :: "jsvalue \<Rightarrow> jsnum" where
  "ToNumber (JSNumber n) = n"
| "ToNumber (JSString s) = StringToNumber s"
| "ToNumber JSNull = Fin 0"

definition isNaN :: "jsvalue \<Rightarrow> bool" where
  "isNaN v = (ToNumber v = NaN)"

text \<open>
  \<open>parseInt(string)\<close>: leading white space, an optional sign, an optional \<open>0x\<close>, then
  the longest run of digits; \<open>NaN\<close> when there is none.
\<close>

definition parseIntString :: "string \<Rightarrow> jsnum" where
  "parseIntString s =
     (let (sg, u) = stripSign (dropWhile isWhiteSpace s);
          hex = (case u of
                   z # p # ds \<Rightarrow> z = CHR ''0'' \<and> (p = CHR ''x'' \<or> p = CHR ''X'')
                 | _ \<Rightarrow> False);
          radix = (if hex then 16 else 10);
          ds = takeWhile (isDigitIn radix) (if hex then drop 2 u else u)
      in if ds = [] then NaN else toDouble (sg * real (digitsValue radix ds)))"

text \<open>\<open>Math.min.apply(null, values)\<close> and \<open>Math.max.apply(null, values)\<close>: every
  argument goes through \<open>Number\<close>; one \<open>NaN\<close> makes the result \<open>NaN\<close>; with no
  argument the results are the infinities.\<close>

definition min2 :: "jsnum \<Rightarrow> jsnum \<Rightarrow> jsnum" where
  "min2 a b = (if a = NaN \<or> b = NaN then NaN else if js_less b a then b else a)"

definition max2 :: "jsnum \<Rightarrow> jsnum \<Rightarrow> jsnum" where
  "max2 a b = (if a = NaN \<or> b = NaN then NaN else if js_less a b then b else a)"

definition Math_min :: "jsvalue list \<Rightarrow> jsnum" where
  "Math_min vs = foldl min2 PosInf (map ToNumber vs)"

definition Math_max :: "jsvalue list \<Rightarrow> jsnum" where
  "Math_max vs = foldl max2 NegInf (map ToNumber vs)"

section \<open>Regular expressions of the name hints\<close>

text \<open>
  The hints are regular expressions over the constructs below. \<open>Bol\<close> and \<open>Eol\<close> are
  the anchors \<open>^\<close> and \<open>$\<close> (no multiline flag), \<open>Dot\<close> is any character but a line
  terminator, \<open>Cls\<close> a character class, \<open>Opt\<close> the postfix \<open>?\<close>. Names are byte
  strings.
\<close>

datatype regex =
    Eps
  | Bol
  | Eol
  | Chr char
  | Dot
  | Cls "char list"
  | Seq regex regex
  | Alt regex regex
  | Star regex
  | Opt regex

text \<open>A literal word, and an alternation of several branches.\<close>

definition Str :: "string \<Rightarrow> regex" where
  "Str w = foldr (\<lambda>c r. Seq (Chr c) r) w Eps"

fun Alts :: "regex list \<Rightarrow> regex" where
  "Alts [] = Eps"
| "Alts [r] = r"
| "Alts (r # rs) = Alt r (Alts rs)"

text \<open>With the flag \<open>i\<close> characters are compared after folding ASCII letters to upper case.\<close>

definition toUpperCase :: "char \<Rightarrow> char" where
  "toUpperCase c =
     (case map_of (zip ''abcdefghijklmnopqrstuvwxyz'' ''ABCDEFGHIJKLMNOPQRSTUVWXYZ'') c of
        None \<Rightarrow> c
      | Some u \<Rightarrow> u)"

definition canonicalize :: "bool \<Rightarrow> char \<Rightarrow> char" where
  "canonicalize ignoreCase c = (if ignoreCase then toUpperCase c else c)"

definition isLineTerminator :: "char \<Rightarrow> bool" where
  "isLineTerminator c = (c = CHR 0x0A \<or> c = CHR 0x0D)"

text \<open>
  A position in the input: whether it is the start of the input, and what is left of the
  input from there.
\<close>

type_synonym pos = "bool \<times> string"

text \<open>
  The positions a star reaches: \<open>front\<close> holds the positions found in the last round,
  \<open>seen\<close> the earlier ones. An iteration of a star consumes at least one character, so
  one round for each character left is enough; the first argument counts the rounds.
\<close>

primrec starIter :: "'b list \<Rightarrow> (pos \<Rightarrow> pos list) \<Rightarrow> pos list \<Rightarrow> pos list \<Rightarrow> pos list" where
  "starIter [] m front seen = seen @ front"
| "starIter (x # xs) m front seen =
     starIter xs m
       (filter (\<lambda>q. q \<notin> set (seen @ front)) (remdups (concat (map m front))))
       (seen @ front)"

text \<open>
  \<open>ends r ic p\<close> lists the positions where a match of \<open>r\<close> that starts at position
  \<open>p\<close> can end.
\<close>

primrec ends :: "regex \<Rightarrow> bool \<Rightarrow> pos \<Rightarrow> pos list" where
  "ends Eps ic p = [p]"
| "ends Bol ic p = (if fst p then [p] else [])"
| "ends Eol ic p = (if snd p = [] then [p] else [])"
| "ends (Chr c) ic p =
     (case snd p of
        [] \<Rightarrow> []
      | x # xs \<Rightarrow> if canonicalize ic x = canonicalize ic c then [(False, xs)] else [])"
| "ends Dot ic p =
     (case snd p of
        [] \<Rightarrow> []
      | x # xs \<Rightarrow> if isLineTerminator x then [] else [(False, xs)])"
| "ends (Cls cs) ic p =
     (case snd p of
        [] \<Rightarrow> []
      | x # xs \<Rightarrow>
          if canonicalize ic x \<in> set (map (canonicalize ic) cs) then [(False, xs)] else [])"
| "ends (Seq a b) ic p = concat (map (ends b ic) (ends a ic p))"
| "ends (Alt a b) ic p = ends a ic p @ ends b ic p"
| "ends (Star a) ic p = starIter (snd p) (ends a ic) [p] []"
| "ends (Opt a) ic p = ends a ic p @ [p]"

record RegExp =
  source :: regex
  ignoreCase :: bool

text \<open>Every position of a name: its start, then the position after each character.\<close>

fun laterPositions :: "string \<Rightarrow> pos list" where
  "laterPositions [] = []"
| "laterPositions (x # xs) = (False, xs) # laterPositions xs"

definition positions :: "string \<Rightarrow> pos list" where
  "positions name = (True, name) # laterPositions name"

text \<open>\<open>hint.test(name)\<close>: a match may start at any position of the name.\<close>

definition matchesAt :: "RegExp \<Rightarrow> pos \<Rightarrow> bool" where
  "matchesAt re p = (ends (source re) (ignoreCase re) p \<noteq> [])"

definition test :: "RegExp \<Rightarrow> string \<Rightarrow> bool" where
  "test re name = list_ex (matchesAt re) (positions name)"

section \<open>Variable types and the hints\<close>

text \<open>
  Modelled from the spec: the enumerations \<open>VarType\<close> and \<open>VarSubType\<close> live in
  \<open>../Map/VarType\<close> and \<open>../Map/VarSubType\<close>; the column types are the six the data
  model lists, and the only subtype it names is \<open>YEAR\<close>.
\<close>

datatype VarType = LON | LAT | ALT | TIME | SCALAR | ENUM

datatype VarSubType = YEAR

text \<open>The two hint sets, pattern by pattern as the source writes them.\<close>

definition typeHintSet :: "(RegExp \<times> VarType) list" where
  "typeHintSet =
     [ (\<lparr>source = Seq Bol (Seq (Alts [Str ''lon'', Str ''longitude'', Str ''lng'']) Eol),
         ignoreCase = True\<rparr>, LON),
       (\<lparr>source = Seq Bol (Seq (Alts [Str ''lat'', Str ''latitude'']) Eol),
         ignoreCase = True\<rparr>, LAT),
       (\<lparr>source = Seq Bol (Seq (Opt (Seq (Star Dot) (Cls ''_ '')))
                   (Seq (Alts [Str ''depth'', Str ''height'', Str ''elevation'']) Eol)),
         ignoreCase = True\<rparr>, ALT),
       (\<lparr>source = Seq Bol (Seq (Opt (Seq (Star Dot) (Cls ''_ '')))
                   (Alts [Str ''time'', Str ''date''])),
         ignoreCase = True\<rparr>, TIME),
       (\<lparr>source = Seq Bol (Seq (Str ''year'') Eol), ignoreCase = True\<rparr>, TIME),
       (\<lparr>source = Alts [Seq Bol (Str ''postcode''), Str ''poa'',
                         Seq (Seq (Star Dot) (Str ''_code'')) Eol],
         ignoreCase = True\<rparr>, ENUM) ]"

definition subtypeHintSet :: "(RegExp \<times> VarSubType) list" where
  "subtypeHintSet =
     [ (\<lparr>source = Seq Bol (Seq (Opt (Seq (Star Dot) (Cls ''_ ''))) (Str ''year'')),
         ignoreCase = True\<rparr>, YEAR) ]"

text \<open>\<open>array.indexOf(x)\<close> on an array of enumeration values: the first index, or -1.\<close>

fun indexOf :: "'a list \<Rightarrow> 'a \<Rightarrow> int" where
  "indexOf [] x = - 1"
| "indexOf (y # ys) x =
     (if y = x then 0 else (let k = indexOf ys x in if k = - 1 then - 1 else k + 1))"

text \<open>
  \<open>applyHintsToName\<close>: the loop over the hint set returns the first guess that is not
  excluded; falling off the end returns undefined.
\<close>

fun applyHintsToName :: "(RegExp \<times> 'a) list \<Rightarrow> string \<Rightarrow> 'a list \<Rightarrow> 'a option" where
  "applyHintsToName [] name unallowedTypes = None"
| "applyHintsToName (h # hintSet) name unallowedTypes =
     (if test (fst h) name then
        (let guess = snd h in
         if indexOf unallowedTypes guess = - 1 then Some guess
         else applyHintsToName hintSet name unallowedTypes)
      else applyHintsToName hintSet name unallowedTypes)"

datatype error = DeveloperError string | TypeError string

text \<open>\<open>setTypeAndSubTypeFromName\<close>: the values it stores in \<open>_type\<close> and \<open>_subtype\<close>.\<close>

definition setTypeAndSubTypeFromName ::
  "string \<Rightarrow> VarType list \<Rightarrow> error + (VarType \<times> VarSubType option)" where
  "setTypeAndSubTypeFromName name unallowedTypes =
     (case applyHintsToName typeHintSet name unallowedTypes of
        Some t \<Rightarrow> Inr (t, applyHintsToName subtypeHintSet name [])
      | None \<Rightarrow>
          if indexOf unallowedTypes SCALAR \<ge> 0
          then Inl (DeveloperError ''No suitable variable type found.'')
          else Inr (SCALAR, applyHintsToName subtypeHintSet name []))"

section \<open>Instants, intervals and the clock\<close>

text \<open>
  The column code computes with Cesium's \<open>JulianDate\<close> only through the functions
  below. A \<open>JulianDate\<close> has two fields: \<open>dayNumber\<close>, a whole number of days, and
  \<open>secondsOfDay\<close>, a double. Every sum, difference, product and quotient of doubles
  that the functions compute is rounded to a double; the day numbers are whole numbers
  far below \<open>2 ^ 53\<close>, so the arithmetic on them is exact, and the fields stay far from
  the largest double, so no result is an infinity.
\<close>

record JulianDate =
  dayNumber :: int
  secondsOfDay :: real

text \<open>
  \<open>JulianDate.compare\<close>: the difference of the day numbers when they differ, otherwise
  the difference of the seconds. Its callers only look at the sign of the result, and
  the rounded difference of two doubles has the sign of the exact difference (it is 0
  only when they are equal), so the difference is left as it is.
\<close>

definition JulianDate_compare :: "JulianDate \<Rightarrow> JulianDate \<Rightarrow> real" where
  "JulianDate_compare left right =
     (let julianDayNumberDifference = dayNumber left - dayNumber right in
      if julianDayNumberDifference \<noteq> 0 then of_int julianDayNumberDifference
      else secondsOfDay left - secondsOfDay right)"

definition JulianDate_equals :: "JulianDate \<Rightarrow> JulianDate \<Rightarrow> bool" where
  "JulianDate_equals left right =
     (dayNumber left = dayNumber right \<and> secondsOfDay left = secondsOfDay right)"

definition JulianDate_greaterThan :: "JulianDate \<Rightarrow> JulianDate \<Rightarrow> bool" where
  "JulianDate_greaterThan left right = (JulianDate_compare left right > 0)"

definition JulianDate_lessThan :: "JulianDate \<Rightarrow> JulianDate \<Rightarrow> bool" where
  "JulianDate_lessThan left right = (JulianDate_compare left right < 0)"

definition JulianDate_secondsDifference :: "JulianDate \<Rightarrow> JulianDate \<Rightarrow> real" where
  "JulianDate_secondsDifference left right =
     (let dayDifference = roundToDouble (of_int (dayNumber left - dayNumber right) * 86400) in
      roundToDouble (dayDifference + roundToDouble (secondsOfDay left - secondsOfDay right)))"

text \<open>\<open>x | 0\<close>: the number without its fraction, wrapped into 32 bits with a sign.\<close>

definition ToInt32 :: "real \<Rightarrow> int" where
  "ToInt32 x =
     (let t = (if x < 0 then - \<lfloor>- x\<rfloor> else \<lfloor>x\<rfloor>);
          m = t mod 2 ^ 32
      in if 2 ^ 31 \<le> m then m - 2 ^ 32 else m)"

text \<open>
  \<open>setComponents\<close> brings the seconds back into one day: the whole days in them go to
  the day number, and negative seconds borrow a day.
\<close>

definition setComponents :: "int \<Rightarrow> real \<Rightarrow> JulianDate" where
  "setComponents wholeDays seconds =
     (let extraDays = ToInt32 (roundToDouble (seconds / 86400));
          wholeDays1 = wholeDays + extraDays;
          seconds1 = roundToDouble (seconds - roundToDouble (86400 * of_int extraDays))
      in if seconds1 < 0
         then \<lparr>dayNumber = wholeDays1 - 1, secondsOfDay = roundToDouble (seconds1 + 86400)\<rparr>
         else \<lparr>dayNumber = wholeDays1, secondsOfDay = seconds1\<rparr>)"

definition JulianDate_addSeconds :: "JulianDate \<Rightarrow> real \<Rightarrow> JulianDate" where
  "JulianDate_addSeconds julianDate seconds =
     setComponents (dayNumber julianDate) (roundToDouble (secondsOfDay julianDate + seconds))"

definition JulianDate_addMinutes :: "JulianDate \<Rightarrow> real \<Rightarrow> JulianDate" where
  "JulianDate_addMinutes julianDate minutes =
     (let newSecondsOfDay =
            roundToDouble (secondsOfDay julianDate + roundToDouble (minutes * 60))
      in setComponents (dayNumber julianDate) newSecondsOfDay)"

text \<open>\<open>new JulianDate()\<close>: day 0, second 0 of the UTC scale, which is second 10 here.\<close>

definition JulianDate_new :: JulianDate where
  "JulianDate_new = \<lparr>dayNumber = 0, secondsOfDay = 10\<rparr>"

text \<open>
  A \<open>TimeInterval\<close> built from \<open>{start, stop}\<close> copies the two instants, includes both
  end points and carries no data; an end point left undefined is \<open>new JulianDate()\<close>.
  It is empty when it stops before it starts.
\<close>

record TimeInterval =
  start :: JulianDate
  stop :: JulianDate

definition TimeInterval_new :: "JulianDate option \<Rightarrow> JulianDate option \<Rightarrow> TimeInterval" where
  "TimeInterval_new a b =
     \<lparr>start = (case a of None \<Rightarrow> JulianDate_new | Some x \<Rightarrow> x),
      stop = (case b of None \<Rightarrow> JulianDate_new | Some y \<Rightarrow> y)\<rparr>"

definition isEmpty :: "TimeInterval \<Rightarrow> bool" where
  "isEmpty iv = (JulianDate_compare (stop iv) (start iv) < 0)"

text \<open>
  A \<open>TimeIntervalCollection\<close> keeps its intervals sorted and apart. \<open>addInterval\<close>
  ignores an empty interval; intervals that overlap or touch and carry the same data
  (here: none) are combined into one.
\<close>

type_synonym TimeIntervalCollection = "TimeInterval list"

fun insertInterval :: "TimeInterval \<Rightarrow> TimeIntervalCollection \<Rightarrow> TimeIntervalCollection" where
  "insertInterval iv [] = [iv]"
| "insertInterval iv (x # xs) =
     (if JulianDate_lessThan (stop iv) (start x) then iv # x # xs
      else if JulianDate_lessThan (stop x) (start iv) then x # insertInterval iv xs
      else insertInterval
             \<lparr>start = (if JulianDate_lessThan (start iv) (start x) then start iv else start x),
              stop = (if JulianDate_lessThan (stop x) (stop iv) then stop iv else stop x)\<rparr> xs)"

definition addInterval :: "TimeInterval \<Rightarrow> TimeIntervalCollection \<Rightarrow> TimeIntervalCollection" where
  "addInterval iv c = (if isEmpty iv then c else insertInterval iv c)"

text \<open>The \<open>start\<close> and \<open>stop\<close> of a collection are undefined when it has no interval.\<close>

definition collectionStart :: "TimeIntervalCollection \<Rightarrow> JulianDate option" where
  "collectionStart c = (case c of [] \<Rightarrow> None | x # xs \<Rightarrow> Some (start x))"

definition collectionStop :: "TimeIntervalCollection \<Rightarrow> JulianDate option" where
  "collectionStop c = (case c of [] \<Rightarrow> None | x # xs \<Rightarrow> Some (stop (last c)))"

text \<open>
  \<open>createClock\<close> hands whole collections to \<open>addInterval\<close>: a collection counts as
  empty when it has no interval, and otherwise is read through its \<open>start\<close> and
  \<open>stop\<close>.
\<close>

definition addCollection ::
  "TimeIntervalCollection \<Rightarrow> TimeIntervalCollection \<Rightarrow> TimeIntervalCollection" where
  "addCollection availability c =
     (case availability of
        [] \<Rightarrow> c
      | x # xs \<Rightarrow> insertInterval \<lparr>start = start x, stop = stop (last availability)\<rparr> c)"

datatype ClockRange = UNBOUNDED | CLAMPED | LOOP_STOP

datatype ClockStep = TICK_DEPENDENT | SYSTEM_CLOCK_MULTIPLIER | SYSTEM_CLOCK

record DataSourceClock =
  startTime :: JulianDate
  stopTime :: JulianDate
  currentTime :: JulianDate
  clockRange :: ClockRange
  clockStep :: ClockStep
  multiplier :: int

text \<open>\<open>Math.round\<close>: the nearest integer, a half rounds up.\<close>

definition Math_round :: "real \<Rightarrow> int" where
  "Math_round x = \<lfloor>x + 1 / 2\<rfloor>"

section \<open>Finish dates\<close>

definition defaultFinalDurationSeconds :: real where
  "defaultFinalDurationSeconds = 3600 * 24 - 1"

text \<open>
  The filter of \<open>calculateFinishDates\<close>: the element at index 0 is kept, a later one is
  kept when it differs from the element before it.
\<close>

primrec keepChanged :: "JulianDate \<Rightarrow> JulianDate list \<Rightarrow> JulianDate list" where
  "keepChanged previous [] = []"
| "keepChanged previous (element # array) =
     (if JulianDate_equals previous element then keepChanged element array
      else element # keepChanged element array)"

definition filterRepeated :: "JulianDate list \<Rightarrow> JulianDate list" where
  "filterRepeated array = (case array of [] \<Rightarrow> [] | element # rest \<Rightarrow> element # keepChanged element rest)"

text \<open>
  \<open>array.sort(JulianDate.compare)\<close>: the comparison orders the instants by day number
  and then by seconds, and two instants that compare equal are equal, so the sorted
  array does not depend on the sorting algorithm. It is built here by insertion.
\<close>

fun insertDate :: "JulianDate \<Rightarrow> JulianDate list \<Rightarrow> JulianDate list" where
  "insertDate d [] = [d]"
| "insertDate d (x # xs) =
     (if JulianDate_compare d x < 0 then d # x # xs else x # insertDate d xs)"

definition sortDates :: "JulianDate list \<Rightarrow> JulianDate list" where
  "sortDates array = foldr insertDate array []"

text \<open>The unique, sorted dates.\<close>

definition revisedDatesOf :: "JulianDate list \<Rightarrow> JulianDate list" where
  "revisedDatesOf julianDates = filterRepeated (sortDates julianDates)"

text \<open>
  The end date of a start date whose next start date is \<open>rawEndDate\<close>. The literal
  \<open>0.95\<close> is the double nearest to it, and the product is rounded.
\<close>

definition endDate :: "JulianDate \<Rightarrow> JulianDate \<Rightarrow> JulianDate" where
  "endDate startDate rawEndDate =
     (let secondsDifference = JulianDate_secondsDifference rawEndDate startDate in
      if secondsDifference < 20
      then JulianDate_addSeconds startDate
             (roundToDouble (secondsDifference * roundToDouble 0.95))
      else JulianDate_addSeconds rawEndDate (- 1))"

text \<open>\<open>revisedDates.slice(1).map(...)\<close>: one end date for each date that has a successor.\<close>

fun innerEndDates :: "JulianDate list \<Rightarrow> JulianDate list" where
  "innerEndDates (d # r # ds) = endDate d r # innerEndDates (r # ds)"
| "innerEndDates ds = []"

definition finalDurationSecondsOf :: "JulianDate list \<Rightarrow> real" where
  "finalDurationSecondsOf revisedDates =
     (let n = length revisedDates in
      if n > 1
      then roundToDouble
             (JulianDate_secondsDifference (last revisedDates) (hd revisedDates) / real (n - 1))
      else defaultFinalDurationSeconds)"

definition endDatesOf :: "JulianDate list \<Rightarrow> JulianDate list" where
  "endDatesOf revisedDates =
     innerEndDates revisedDates
     @ [JulianDate_addSeconds (last revisedDates) (finalDurationSecondsOf revisedDates)]"

text \<open>
  The loop of the last \<open>map\<close>: the first end date, among those with an index below the
  number of revised dates, that is greater than the start date; undefined if there is
  none.
\<close>

fun firstGreater :: "JulianDate list \<Rightarrow> JulianDate \<Rightarrow> JulianDate option" where
  "firstGreater [] startDate = None"
| "firstGreater (e # es) startDate =
     (if JulianDate_greaterThan e startDate then Some e else firstGreater es startDate)"

definition finishDate :: "JulianDate list \<Rightarrow> JulianDate list \<Rightarrow> JulianDate \<Rightarrow> JulianDate option" where
  "finishDate revisedDates endDates startDate =
     firstGreater (take (length revisedDates) endDates) startDate"

text \<open>
  \<open>calculateFinishDates\<close>. With no date at all the last revised date is undefined and
  \<open>JulianDate.addSeconds\<close> refuses it.
\<close>

definition calculateFinishDates :: "JulianDate list \<Rightarrow> error + JulianDate option list" where
  "calculateFinishDates julianDates =
     (let revisedDates = revisedDatesOf julianDates in
      if revisedDates = [] then Inl (DeveloperError ''julianDate is required.'')
      else Inr (map (finishDate revisedDates (endDatesOf revisedDates)) julianDates))"

section \<open>Parsing dates\<close>

text \<open>
  What the column code takes from the JavaScript host and from Cesium without defining
  it: the decimal text of a number, the two ways of building a \<open>Date\<close> followed by
  \<open>JulianDate.fromDate\<close>, the ISO 8601 parser, and the instant
  \<open>Iso8601.MINIMUM_VALUE\<close>. A parser returns \<open>None\<close> where it throws (a string that
  is no date).
\<close>

record host =
  Number_toString :: "jsnum \<Rightarrow> string"
  Date_fromString :: "string \<Rightarrow> JulianDate option"
  Date_fromNumber :: "jsnum \<Rightarrow> JulianDate option"
  JulianDate_fromIso8601 :: "string \<Rightarrow> JulianDate option"
  Iso8601_MINIMUM_VALUE :: JulianDate

fun ToString :: "host \<Rightarrow> jsvalue \<Rightarrow> string" where
  "ToString h (JSString s) = s"
| "ToString h (JSNumber n) = Number_toString h n"
| "ToString h JSNull = ''null''"

definition parseInt :: "host \<Rightarrow> jsvalue \<Rightarrow> jsnum" where
  "parseInt h v = parseIntString (ToString h v)"

text \<open>\<open>string.split(separator)\<close> for a separator that is one character of a class.\<close>

fun split :: "(char \<Rightarrow> bool) \<Rightarrow> string \<Rightarrow> string list" where
  "split sep [] = [[]]"
| "split sep (c # cs) =
     (if sep c then [] # split sep cs
      else (case split sep cs of [] \<Rightarrow> [[c]] | w # ws \<Rightarrow> (c # w) # ws))"

definition isSlashOrHyphen :: "char \<Rightarrow> bool" where
  "isSlashOrHyphen c = (c = CHR ''/'' \<or> c = CHR ''-'')"

definition isHyphen :: "char \<Rightarrow> bool" where
  "isHyphen c = (c = CHR ''-'')"

definition isColon :: "char \<Rightarrow> bool" where
  "isColon c = (c = CHR '':'')"

definition isT :: "char \<Rightarrow> bool" where
  "isT c = (c = CHR ''T'')"

definition notT :: "char \<Rightarrow> bool" where
  "notT c = (c \<noteq> CHR ''T'')"

definition swapDateFormat :: "string \<Rightarrow> string" where
  "swapDateFormat v =
     (case split isSlashOrHyphen v of
        [p0, p1, p2] \<Rightarrow> p1 @ ''/'' @ p0 @ ''/'' @ p2
      | _ \<Rightarrow> v)"

text \<open>The time of day that \<open>replaceHyphensAndConvertTime\<close> puts back behind the date.\<close>

definition timeSuffix :: "host \<Rightarrow> string list \<Rightarrow> string" where
  "timeSuffix h timeParts =
     (let time = (case timeParts of t0 # t1 # ts \<Rightarrow> '' '' @ t0 @ '':'' @ t1 | _ \<Rightarrow> []) in
      case timeParts of
        t0 # t1 # t2 # ts \<Rightarrow> time @ '':'' @ Number_toString h (parseIntString t2)
      | _ \<Rightarrow> time)"

definition hyphensToSlashes :: "string \<Rightarrow> string" where
  "hyphensToSlashes v =
     (case split isHyphen v of
        [p0, p1, p2] \<Rightarrow> p0 @ ''/'' @ p1 @ ''/'' @ p2
      | _ \<Rightarrow> v)"

definition replaceHyphensAndConvertTime :: "host \<Rightarrow> string \<Rightarrow> string" where
  "replaceHyphensAndConvertTime h v =
     (if list_ex isT v then
        hyphensToSlashes (takeWhile notT v)
        @ timeSuffix h (split isColon (tl (dropWhile notT v)))
      else hyphensToSlashes v)"

definition isInteger :: "host \<Rightarrow> jsvalue \<Rightarrow> bool" where
  "isInteger h v =
     (if isNaN v then False
      else if num_strict_equals (parseInt h (JSNumber (ToNumber v))) (ToNumber v)
      then parseInt h v \<noteq> NaN
      else False)"

text \<open>The loop of \<open>areAllIntegers\<close> runs from the last element to the first.\<close>

definition areAllIntegers :: "host \<Rightarrow> jsvalue list \<Rightarrow> bool" where
  "areAllIntegers h array = list_all (isInteger h) (rev array)"

text \<open>The four date parsers; each gives the instant, or throws.\<close>

definition yearParser :: "host \<Rightarrow> jsvalue \<Rightarrow> JulianDate option" where
  "yearParser h v = Date_fromString h (ToString h v @ ''/01/01'')"

fun isoParser :: "host \<Rightarrow> jsvalue \<Rightarrow> JulianDate option" where
  "isoParser h (JSString s) = JulianDate_fromIso8601 h s"
| "isoParser h v = None"

fun intlParser :: "host \<Rightarrow> jsvalue \<Rightarrow> JulianDate option" where
  "intlParser h (JSString s) = Date_fromString h (swapDateFormat s)"
| "intlParser h v = None"

fun usaParser :: "host \<Rightarrow> jsvalue \<Rightarrow> JulianDate option" where
  "usaParser h (JSString s) = Date_fromString h (replaceHyphensAndConvertTime h s)"
| "usaParser h (JSNumber n) = Date_fromNumber h n"
| "usaParser h JSNull = None"

text \<open>\<open>theValues.map(dateParsers)\<close> inside \<open>try\<close>: all the results, or none of them.\<close>

fun mapOrThrow :: "('a \<Rightarrow> 'b option) \<Rightarrow> 'a list \<Rightarrow> 'b list option" where
  "mapOrThrow f [] = Some []"
| "mapOrThrow f (x # xs) =
     (case f x of
        None \<Rightarrow> None
      | Some y \<Rightarrow> (case mapOrThrow f xs of None \<Rightarrow> None | Some ys \<Rightarrow> Some (y # ys)))"

definition raiseMaximum :: "host \<Rightarrow> jsnum \<Rightarrow> jsvalue \<Rightarrow> jsnum" where
  "raiseMaximum h firstPositionMaximum v =
     (let firstPosition = parseInt h v in
      if js_greater firstPosition firstPositionMaximum then firstPosition
      else firstPositionMaximum)"

definition firstPositionMaximumOf :: "host \<Rightarrow> jsvalue list \<Rightarrow> jsnum" where
  "firstPositionMaximumOf h theValues = foldl (raiseMaximum h) (Fin 0) theValues"

datatype dateFormat = YearFormat | IsoFormat | IntlFormat | UsaFormat

definition chooseFormat :: "host \<Rightarrow> VarSubType option \<Rightarrow> jsvalue list \<Rightarrow> dateFormat" where
  "chooseFormat h subtype theValues =
     (let firstPositionMaximum = firstPositionMaximumOf h theValues in
      if subtype = Some YEAR then YearFormat
      else if js_greater_eq firstPositionMaximum (Fin 1850)
              \<and> js_less_eq firstPositionMaximum (Fin 2100) \<and> areAllIntegers h theValues
      then YearFormat
      else if js_greater firstPositionMaximum (Fin 31) then IsoFormat
      else if js_greater firstPositionMaximum (Fin 12) then IntlFormat
      else UsaFormat)"

fun dateParsers :: "dateFormat \<Rightarrow> host \<Rightarrow> jsvalue \<Rightarrow> JulianDate option" where
  "dateParsers YearFormat h v = yearParser h v"
| "dateParsers IsoFormat h v = isoParser h v"
| "dateParsers IntlFormat h v = intlParser h v"
| "dateParsers UsaFormat h v = usaParser h v"

text \<open>
  \<open>convertToDates\<close>: the subtype it identified and the values as instants. The list of
  JavaScript dates has one date for each instant; only its length is used.
\<close>

definition convertToDates ::
  "host \<Rightarrow> VarSubType option \<Rightarrow> jsvalue list \<Rightarrow> VarSubType option \<times> JulianDate list" where
  "convertToDates h subtype theValues =
     (let format = chooseFormat h subtype theValues in
      (if format = YearFormat then Some YEAR else None,
       case mapOrThrow (dateParsers format h) theValues of None \<Rightarrow> [] | Some results \<Rightarrow> results))"

section \<open>The column\<close>

text \<open>
  The options of the constructor that the column code reads (\<open>tableStructure\<close> and
  \<open>active\<close> only go to the base class). An option left out is \<open>None\<close>.
\<close>

record options =
  opt_type :: "VarType option"
  opt_subtype :: "VarSubType option"
  opt_unallowedTypes :: "VarType list option"
  opt_displayVariableTypes :: "VarType list option"
  opt_replaceWithNullValues :: "jsvalue list option"
  opt_displayDuration :: "real option"

definition defaultValue :: "'a option \<Rightarrow> 'a \<Rightarrow> 'a" where
  "defaultValue a b = (case a of None \<Rightarrow> b | Some x \<Rightarrow> x)"

definition defaultReplaceWithNullValues :: "jsvalue list" where
  "defaultReplaceWithNullValues = [JSString ''-'', JSString ''na'', JSString ''NA'']"

text \<open>
  The fields of a column; \<open>col_x\<close> is the field \<open>_x\<close> (or \<open>x\<close>) of the source. A field
  that can be undefined is an option. The column is built for a values array that is
  given. \<open>col_isVisible\<close> is \<open>None\<close> as long as the column code has not set the flag.
\<close>

record TableColumn =
  col_name :: string
  col_options :: options
  col_unallowedTypes :: "VarType list"
  col_type :: VarType
  col_subtype :: "VarSubType option"
  col_values :: "jsvalue list"
  col_minimumValue :: jsnum
  col_maximumValue :: jsnum
  col_numericalValues :: "jsvalue list"
  col_uniqueValues :: "jsvalue list option"
  col_indicesIntoUniqueValues :: "int list option"
  col_displayDuration :: "real option"
  col_displayVariableTypes :: "VarType list option"
  col_isVisible :: "bool option"
  col_dates :: "JulianDate list option"
  col_julianDates :: "JulianDate list option"
  col_finishJulianDates :: "JulianDate option list option"
  col_availabilities :: "TimeIntervalCollection list option"
  col_clock :: "DataSourceClock option"

text \<open>\<open>array.indexOf(value)\<close> on cells compares with \<open>===\<close>.\<close>

fun js_indexOf :: "jsvalue list \<Rightarrow> jsvalue \<Rightarrow> int" where
  "js_indexOf [] v = - 1"
| "js_indexOf (y # ys) v =
     (if strict_equals y v then 0
      else (let k = js_indexOf ys v in if k = - 1 then - 1 else k + 1))"

text \<open>\<open>array[index]\<close>: undefined outside the array.\<close>

definition element :: "'a list \<Rightarrow> int \<Rightarrow> 'a option" where
  "element xs i = (if 0 \<le> i \<and> i < int (length xs) then Some (xs ! nat i) else None)"

definition replaceWithNull :: "jsvalue list \<Rightarrow> jsvalue \<Rightarrow> jsvalue" where
  "replaceWithNull replaceWithNullValues v =
     (if js_indexOf replaceWithNullValues v \<ge> 0 then JSNull else v)"

definition reviseForBadNumbers :: "TableColumn \<Rightarrow> jsvalue list \<Rightarrow> TableColumn" where
  "reviseForBadNumbers tableColumn replaceWithNullValues =
     (if col_minimumValue tableColumn = NaN \<and> col_type tableColumn = SCALAR
         \<and> length (col_numericalValues tableColumn) > 0
      then (let vs = map (replaceWithNull replaceWithNullValues) (col_values tableColumn) in
            tableColumn\<lparr>col_values := vs,
                        col_minimumValue := Math_min vs,
                        col_maximumValue := Math_max vs,
                        col_numericalValues := filter typeof_number vs\<rparr>)
      else tableColumn)"

definition usesIndicesIntoUniqueValues :: "TableColumn \<Rightarrow> bool" where
  "usesIndicesIntoUniqueValues c = (col_minimumValue c = NaN \<and> col_type c = ENUM)"

text \<open>
  Modelled from the spec: \<open>getUniqueValues\<close> lives in \<open>../Core/getUniqueValues\<close>; it
  gives the distinct raw values in the order of their first occurrence.
\<close>

definition addUnique :: "'a list \<Rightarrow> 'a \<Rightarrow> 'a list" where
  "addUnique found v = (if v \<in> set found then found else found @ [v])"

definition getUniqueValues :: "'a list \<Rightarrow> 'a list" where
  "getUniqueValues array = foldl addUnique [] array"

definition updateForType :: "TableColumn \<Rightarrow> TableColumn" where
  "updateForType tableColumn =
     (let c1 = tableColumn\<lparr>col_uniqueValues := None\<rparr>;
          c2 = (if usesIndicesIntoUniqueValues c1
                then (let u = getUniqueValues (col_values c1) in
                      c1\<lparr>col_uniqueValues := Some u,
                         col_indicesIntoUniqueValues := Some (map (js_indexOf u) (col_values c1))\<rparr>)
                else c1);
          c3 = c2\<lparr>col_displayVariableTypes := opt_displayVariableTypes (col_options c2)\<rparr>
      in case col_displayVariableTypes c3 of
           None \<Rightarrow> c3
         | Some types \<Rightarrow> c3\<lparr>col_isVisible := Some (indexOf types (col_type c3) \<ge> 0)\<rparr>)"

text \<open>The setters of \<open>type\<close> and \<open>subtype\<close>, and the getter \<open>indicesOrNumericalValues\<close>.\<close>

definition set_type :: "VarType \<Rightarrow> TableColumn \<Rightarrow> TableColumn" where
  "set_type t c = updateForType (c\<lparr>col_type := t\<rparr>)"

definition set_subtype :: "VarSubType option \<Rightarrow> TableColumn \<Rightarrow> TableColumn" where
  "set_subtype st c = c\<lparr>col_subtype := st\<rparr>"

definition indicesOrNumericalValues :: "TableColumn \<Rightarrow> (int list option) + jsvalue list" where
  "indicesOrNumericalValues c =
     (if usesIndicesIntoUniqueValues c then Inl (col_indicesIntoUniqueValues c)
      else Inr (col_numericalValues c))"

subsection \<open>Availabilities and the clock\<close>

definition flatten :: "'a option option \<Rightarrow> 'a option" where
  "flatten x = (case x of None \<Rightarrow> None | Some y \<Rightarrow> y)"

definition calculateAvailability :: "TableColumn \<Rightarrow> int \<Rightarrow> error + TimeIntervalCollection" where
  "calculateAvailability timeColumn index =
     (case col_julianDates timeColumn of
        None \<Rightarrow> Inl (TypeError ''julianDates is undefined'')
      | Some julianDates \<Rightarrow>
          (case col_displayDuration timeColumn of
             None \<Rightarrow>
               (case col_finishJulianDates timeColumn of
                  None \<Rightarrow> Inl (TypeError ''finishJulianDates is undefined'')
                | Some finishJulianDates \<Rightarrow>
                    Inr (addInterval
                          (TimeInterval_new (element julianDates index)
                             (flatten (element finishJulianDates index))) []))
           | Some displayDuration \<Rightarrow>
               (case element julianDates index of
                  None \<Rightarrow> Inl (DeveloperError ''julianDate is required.'')
                | Some startDate \<Rightarrow>
                    Inr (addInterval
                          (TimeInterval_new (Some startDate)
                             (Some (JulianDate_addMinutes startDate displayDuration))) []))))"

text \<open>A \<open>map\<close> whose function can throw: the first error ends it.\<close>

fun collect :: "(error + 'a) list \<Rightarrow> error + 'a list" where
  "collect [] = Inr []"
| "collect (r # rs) =
     (case r of
        Inl e \<Rightarrow> Inl e
      | Inr x \<Rightarrow> (case collect rs of Inl e \<Rightarrow> Inl e | Inr xs \<Rightarrow> Inr (x # xs)))"

definition calculateAvailabilities :: "TableColumn \<Rightarrow> error + TimeIntervalCollection list" where
  "calculateAvailabilities timeColumn =
     collect (map (calculateAvailability timeColumn)
                  (map int [0..<length (col_values timeColumn)]))"

definition newClock :: "JulianDate \<Rightarrow> JulianDate \<Rightarrow> DataSourceClock" where
  "newClock startTime' stopTime' =
     (let totalSeconds = JulianDate_secondsDifference stopTime' startTime' in
      \<lparr>startTime = startTime', stopTime = stopTime', currentTime = startTime',
       clockRange = LOOP_STOP, clockStep = SYSTEM_CLOCK_MULTIPLIER,
       multiplier = Math_round (roundToDouble (totalSeconds / 120))\<rparr>)"

definition createClock :: "host \<Rightarrow> TableColumn \<Rightarrow> error + DataSourceClock option" where
  "createClock h timeColumn =
     (case col_availabilities timeColumn of
        None \<Rightarrow> Inl (TypeError ''_availabilities is undefined'')
      | Some availabilities \<Rightarrow>
          (let availabilityCollection = fold addCollection availabilities [] in
           if col_clock timeColumn = None then
             (case collectionStart availabilityCollection of
                None \<Rightarrow> Inl (TypeError ''start is undefined'')
              | Some startTime' \<Rightarrow>
                  if JulianDate_equals startTime' (Iso8601_MINIMUM_VALUE h)
                  then Inr (col_clock timeColumn)
                  else (case collectionStop availabilityCollection of
                          None \<Rightarrow> Inl (TypeError ''stop is undefined'')
                        | Some stopTime' \<Rightarrow> Inr (Some (newClock startTime' stopTime'))))
           else Inr (col_clock timeColumn)))"

subsection \<open>The constructor\<close>

text \<open>The part of the constructor that runs for a column of type \<open>TIME\<close>.\<close>

definition timeFields :: "host \<Rightarrow> TableColumn \<Rightarrow> error + TableColumn" where
  "timeFields h c =
     (if col_type c = TIME then
        (let jsDatesAndJulianDates = convertToDates h (col_subtype c) (col_values c);
             c1 = c\<lparr>col_dates := Some (snd jsDatesAndJulianDates),
                    col_julianDates := Some (snd jsDatesAndJulianDates)\<rparr>
         in if length (snd jsDatesAndJulianDates) = 0 then Inr (c1\<lparr>col_type := SCALAR\<rparr>)
            else (case calculateFinishDates (snd jsDatesAndJulianDates) of
                    Inl e \<Rightarrow> Inl e
                  | Inr finish \<Rightarrow>
                      (let c2 = c1\<lparr>col_subtype := fst jsDatesAndJulianDates,
                                    col_finishJulianDates := Some finish\<rparr> in
                       case calculateAvailabilities c2 of
                         Inl e \<Rightarrow> Inl e
                       | Inr availabilities \<Rightarrow>
                           (let c3 = c2\<lparr>col_availabilities := Some availabilities\<rparr> in
                            case createClock h c3 of
                              Inl e \<Rightarrow> Inl e
                            | Inr clock \<Rightarrow> Inr (c3\<lparr>col_clock := clock\<rparr>)))))
      else Inr c)"

definition demoteToEnum :: "TableColumn \<Rightarrow> TableColumn" where
  "demoteToEnum c =
     (if col_minimumValue c = NaN \<and> col_type c = SCALAR then c\<lparr>col_type := ENUM\<rparr> else c)"

definition resolveType ::
  "string \<Rightarrow> options \<Rightarrow> error + (VarType \<times> VarSubType option)" where
  "resolveType name opts =
     (case opt_type opts of
        Some t \<Rightarrow> Inr (t, opt_subtype opts)
      | None \<Rightarrow> setTypeAndSubTypeFromName name (defaultValue (opt_unallowedTypes opts) []))"

definition initialColumn ::
  "string \<Rightarrow> jsvalue list \<Rightarrow> options \<Rightarrow> VarType \<Rightarrow> VarSubType option \<Rightarrow> TableColumn" where
  "initialColumn name vs opts t st =
     \<lparr>col_name = name,
      col_options = opts,
      col_unallowedTypes = defaultValue (opt_unallowedTypes opts) [],
      col_type = t,
      col_subtype = st,
      col_values = vs,
      col_minimumValue = Math_min vs,
      col_maximumValue = Math_max vs,
      col_numericalValues = filter typeof_number vs,
      col_uniqueValues = None,
      col_indicesIntoUniqueValues = None,
      col_displayDuration = opt_displayDuration opts,
      col_displayVariableTypes = None,
      col_isVisible = None,
      col_dates = None,
      col_julianDates = None,
      col_finishJulianDates = None,
      col_availabilities = None,
      col_clock = None\<rparr>"

text \<open>\<open>new TableColumn(name, values, options)\<close>: the column, or the error thrown.\<close>

definition newTableColumn :: "host \<Rightarrow> string \<Rightarrow> jsvalue list \<Rightarrow> options \<Rightarrow> error + TableColumn" where
  "newTableColumn h name vs opts =
     (case resolveType name opts of
        Inl e \<Rightarrow> Inl e
      | Inr ts \<Rightarrow>
          (case timeFields h
                  (reviseForBadNumbers (initialColumn name vs opts (fst ts) (snd ts))
                     (defaultValue (opt_replaceWithNullValues opts) defaultReplaceWithNullValues)) of
             Inl e \<Rightarrow> Inl e
           | Inr c \<Rightarrow> Inr (updateForType (demoteToEnum c))))"

definition noOptions :: options where
  "noOptions =
     \<lparr>opt_type = None, opt_subtype = None, opt_unallowedTypes = None,
      opt_displayVariableTypes = None, opt_replaceWithNullValues = None,
      opt_displayDuration = None\<rparr>"

section \<open>Dividing one column by another\<close>

text \<open>
  The operators \<open>/\<close> and \<open>*\<close> on numbers. A zero carries no sign here, so a
  division by zero gives the infinity with the sign of the numerator.
\<close>

fun js_divide :: "jsnum \<Rightarrow> jsnum \<Rightarrow> jsnum" where
  "js_divide NaN b = NaN"
| "js_divide a NaN = NaN"
| "js_divide (Fin x) (Fin y) =
     (if y = 0 then (if x = 0 then NaN else if x < 0 then NegInf else PosInf)
      else toDouble (x / y))"
| "js_divide (Fin x) b = Fin 0"
| "js_divide a (Fin y) = (if (a = PosInf) = (0 \<le> y) then PosInf else NegInf)"
| "js_divide a b = NaN"

fun js_multiply :: "jsnum \<Rightarrow> jsnum \<Rightarrow> jsnum" where
  "js_multiply NaN b = NaN"
| "js_multiply a NaN = NaN"
| "js_multiply (Fin x) (Fin y) = toDouble (x * y)"
| "js_multiply (Fin x) b =
     (if x = 0 then NaN else if (b = PosInf) = (0 < x) then PosInf else NegInf)"
| "js_multiply a (Fin y) =
     (if y = 0 then NaN else if (a = PosInf) = (0 < y) then PosInf else NegInf)"
| "js_multiply a b = (if a = b then PosInf else NegInf)"

text \<open>\<open>+numerator.values[index]\<close>: an index outside the array gives undefined, a \<open>NaN\<close>.\<close>

definition numberAt :: "jsvalue list \<Rightarrow> int \<Rightarrow> jsnum" where
  "numberAt vs index = (case element vs index of None \<Rightarrow> NaN | Some v \<Rightarrow> ToNumber v)"

definition divideOne :: "TableColumn \<Rightarrow> jsvalue option \<Rightarrow> jsvalue \<times> int \<Rightarrow> jsvalue" where
  "divideOne numerator nanReplace row =
     (case nanReplace of
        None \<Rightarrow> JSNumber (js_divide (numberAt (col_values numerator) (snd row)) (ToNumber (fst row)))
      | Some r \<Rightarrow>
          if strict_equals (fst row) (JSNumber (Fin 0)) then r
          else JSNumber (js_divide (numberAt (col_values numerator) (snd row)) (ToNumber (fst row))))"

definition divideValues :: "TableColumn \<Rightarrow> TableColumn \<Rightarrow> jsvalue option \<Rightarrow> jsvalue list" where
  "divideValues numerator denominator nanReplace =
     map (divideOne numerator nanReplace)
         (zip (col_values denominator) (map int [0..<length (col_values denominator)]))"

section \<open>Statements in the words of the specification\<close>

text \<open>
  The inferred type as the specification words it: the type of the first rule, in the
  order of the hint set, whose pattern matches the name and whose type is not
  excluded; \<open>SCALAR\<close> when there is no such rule.
\<close>

definition inferredTypeSpec :: "string \<Rightarrow> VarType list \<Rightarrow> VarType" where
  "inferredTypeSpec name unallowedTypes =
     (case find (\<lambda>rule. test (fst rule) name \<and> snd rule \<notin> set unallowedTypes) typeHintSet of
        None \<Rightarrow> SCALAR
      | Some rule \<Rightarrow> snd rule)"

text \<open>
  The end date of the \<open>k\<close>-th distinct instant as the specification words it, for the
  deduplicated ascending list \<open>D\<close> of the parsed instants, with every operation
  rounded to a double: the next distinct instant minus one second, or \<open>D ! k\<close> plus 95%
  of the gap when the gap is under 20 seconds; for the last distinct instant,
  \<open>D ! k\<close> plus the average spacing, or plus 86399 seconds when it is the only one.
\<close>

definition finishSpec :: "JulianDate list \<Rightarrow> nat \<Rightarrow> JulianDate" where
  "finishSpec D k =
     (if Suc k < length D then
        (let gap = JulianDate_secondsDifference (D ! Suc k) (D ! k) in
         if gap \<ge> 20 then JulianDate_addSeconds (D ! Suc k) (- 1)
         else JulianDate_addSeconds (D ! k) (roundToDouble (gap * roundToDouble 0.95)))
      else if length D > 1
      then JulianDate_addSeconds (D ! k)
             (roundToDouble
                (JulianDate_secondsDifference (D ! (length D - 1)) (D ! 0) / real (length D - 1)))
      else JulianDate_addSeconds (D ! k) 86399)"

section \<open>A host for the scenarios\<close>

text \<open>
  A host to run the constructor on concrete columns. It prints whole numbers in decimal,
  knows the two calendar dates of the scenario of the specification as Cesium reads
  them (midnight UTC of 1 and 2 January 2015: the Julian day number and the seconds of
  that day on the TAI scale), and takes nothing else for a date.
\<close>

fun decimalDigits :: "nat \<Rightarrow> string" where
  "decimalDigits n =
     (if n < 10 then [''0123456789'' ! n]
      else decimalDigits (n div 10) @ [''0123456789'' ! (n mod 10)])"

fun printNumber :: "jsnum \<Rightarrow> string" where
  "printNumber NaN = ''NaN''"
| "printNumber PosInf = ''Infinity''"
| "printNumber NegInf = ''-Infinity''"
| "printNumber (Fin x) =
     (if x < 0 then ''-'' @ decimalDigits (nat \<lfloor>- x\<rfloor>) else decimalDigits (nat \<lfloor>x\<rfloor>))"

definition jan1 :: JulianDate where
  "jan1 = \<lparr>dayNumber = 2457023, secondsOfDay = 43235\<rparr>"

definition jan2 :: JulianDate where
  "jan2 = \<lparr>dayNumber = 2457024, secondsOfDay = 43235\<rparr>"

definition scenarioDates :: "string \<Rightarrow> JulianDate option" where
  "scenarioDates s =
     (if s = ''2015-01-01'' then Some jan1
      else if s = ''2015-01-02'' then Some jan2
      else None)"

definition noDate :: "'a \<Rightarrow> JulianDate option" where
  "noDate v = None"

definition scenarioHost :: host where
  "scenarioHost =
     \<lparr>Number_toString = printNumber,
      Date_fromString = noDate,
      Date_fromNumber = noDate,
      JulianDate_fromIso8601 = scenarioDates,
      Iso8601_MINIMUM_VALUE = \<lparr>dayNumber = 1721059, secondsOfDay = 43210\<rparr>\<rparr>"

text \<open>
  A host for densely sampled data. Its ISO 8601 parser reads three time stamps as
  instants of one day whose seconds are neighbouring doubles: below 65536 the doubles
  are \<open>1 / 2 ^ 37\<close> apart.
\<close>

definition dense0 :: JulianDate where
  "dense0 = \<lparr>dayNumber = 2457024, secondsOfDay = 65536 - 1 / 2 ^ 36\<rparr>"

definition dense1 :: JulianDate where
  "dense1 = \<lparr>dayNumber = 2457024, secondsOfDay = 65536 - 1 / 2 ^ 37\<rparr>"

definition dense2 :: JulianDate where
  "dense2 = \<lparr>dayNumber = 2457024, secondsOfDay = 65536\<rparr>"

definition denseDates :: "string \<Rightarrow> JulianDate option" where
  "denseDates s =
     (if s = ''2015-01-02T06:11:40.999999999985448084771633148193359375Z'' then Some dense0
      else if s = ''2015-01-02T06:11:40.9999999999927240423858165740966796875Z'' then Some dense1
      else if s = ''2015-01-02T06:11:41Z'' then Some dense2
      else None)"

definition denseHost :: host where
  "denseHost = scenarioHost\<lparr>JulianDate_fromIso8601 := denseDates\<rparr>"

section \<open>The columns of the scenarios\<close>

text \<open>The cells of the column \<open>Revenue\<close>, with numbers and with strings for the amounts.\<close>

definition revenueNumbers :: "jsvalue list" where
  "revenueNumbers = [JSString ''-'', JSNumber (Fin 100), JSString ''na'', JSNumber (Fin 250)]"

definition revenueStrings :: "jsvalue list" where
  "revenueStrings = [JSString ''-'', JSString ''100'', JSString ''na'', JSString ''250'']"

text \<open>The two cells of the column \<open>Start date (AEST)\<close>.\<close>

definition scenarioDays :: "jsvalue list" where
  "scenarioDays = [JSString ''2015-01-01'', JSString ''2015-01-02'']"

text \<open>The column that the constructor builds from them on the host of the scenarios.\<close>

definition scenarioColumn :: TableColumn where
  "scenarioColumn =
     (initialColumn ''Start date (AEST)'' scenarioDays noOptions TIME None)
       \<lparr>col_dates := Some [jan1, jan2],
        col_julianDates := Some [jan1, jan2],
        col_finishJulianDates :=
          Some [Some \<lparr>dayNumber = 2457024, secondsOfDay = 43234\<rparr>,
                Some \<lparr>dayNumber = 2457025, secondsOfDay = 43235\<rparr>],
        col_availabilities :=
          Some [[\<lparr>start = jan1, stop = \<lparr>dayNumber = 2457024, secondsOfDay = 43234\<rparr>\<rparr>],
                [\<lparr>start = jan2, stop = \<lparr>dayNumber = 2457025, secondsOfDay = 43235\<rparr>\<rparr>]],
        col_clock :=
          Some \<lparr>startTime = jan1, stopTime = \<lparr>dayNumber = 2457025, secondsOfDay = 43235\<rparr>,
                currentTime = jan1,
                clockRange = LOOP_STOP, clockStep = SYSTEM_CLOCK_MULTIPLIER,
                multiplier = 1440\<rparr>\<rparr>"

text \<open>
  Options that give the type TIME, and options that also give a display duration of 0
  minutes.
\<close>

definition timeOptions :: options where
  "timeOptions = noOptions\<lparr>opt_type := Some TIME\<rparr>"


text \<open>The three cells of a column of densely sampled time stamps.\<close>

definition denseStamps :: "jsvalue list" where
  "denseStamps =
     [JSString ''2015-01-02T06:11:40.999999999985448084771633148193359375Z'',
      JSString ''2015-01-02T06:11:40.9999999999927240423858165740966796875Z'',
      JSString ''2015-01-02T06:11:41Z'']"

text \<open>Two columns of one row each, with the cells 1 and 49.\<close>

definition numeratorColumn :: TableColumn where
  "numeratorColumn = initialColumn ''a'' [JSNumber (Fin 1)] noOptions SCALAR None"

definition denominatorColumn :: TableColumn where
  "denominatorColumn = initialColumn ''b'' [JSNumber (Fin 49)] noOptions SCALAR None"

section \<open>Properties of the column code\<close>

subsection \<open>Evaluation\<close>

lemma halvings_numeral:
  "halvings (numeral k) x = (if x < 2 then 0 else Suc (halvings (pred_numeral k) (x / 2)))"
  by (simp add: numeral_eq_Suc)

lemma doublings_numeral:
  "doublings (numeral k) x = (if 1 \<le> x then 0 else Suc (doublings (pred_numeral k) (x * 2)))"
  by (simp add: numeral_eq_Suc)

lemmas double_defs = toDouble_def roundToDouble_def quantum_def roundHalfEven_def
  exponentOf_def pow2_def halvings_numeral doublings_numeral Let_def


lemmas value_defs =
  StringToNumber_def trim_def isWhiteSpace_def radixLiteral_def decimalLiteral_def
  isDigitIn_def digitValue_def digitsValue_def exponentPart_def parseIntString_def
  Math_min_def Math_max_def min2_def max2_def isNaN_def double_defs

lemmas regex_defs =
  test_def matchesAt_def positions_def Str_def canonicalize_def toUpperCase_def
  isLineTerminator_def

lemma StringToNumber_examples:
  "StringToNumber ''-'' = NaN"
  "StringToNumber ''100'' = Fin 100"
  "StringToNumber ''na'' = NaN"
  "StringToNumber '' 2.5e1 '' = Fin 25"
  "StringToNumber ''0x1F'' = Fin 31"
  "StringToNumber ''2015-01-01'' = NaN"
  "parseIntString ''2015-01-01'' = Fin 2015"
  "parseIntString ''12-10'' = Fin 12"
  by (simp_all add: value_defs)

subsection \<open>Type inference\<close>

lemma indexOf_ge_minus1: "indexOf xs x \<ge> - 1"
  by (induction xs) (auto simp: Let_def)

lemma indexOf_minus1: "(indexOf xs x = - 1) = (x \<notin> set xs)"
proof (induction xs)
  case Nil
  show ?case by simp
next
  case (Cons y ys)
  have "indexOf ys x \<ge> - 1" by (rule indexOf_ge_minus1)
  with Cons show ?case by (auto simp: Let_def)
qed

lemma indexOf_nonneg: "(indexOf xs x \<ge> 0) = (x \<in> set xs)"
  using indexOf_minus1 [of xs x] indexOf_ge_minus1 [of xs x] by auto

text \<open>The loop of \<open>applyHintsToName\<close> finds the first rule that matches and is allowed.\<close>

lemma applyHintsToName_find:
  "applyHintsToName hintSet name unallowedTypes =
     map_option snd (find (\<lambda>rule. test (fst rule) name \<and> snd rule \<notin> set unallowedTypes) hintSet)"
  by (induction hintSet) (auto simp: Let_def indexOf_minus1)

text \<open>
  Claim C7. When no type is given in the options and the constructor gets past type
  inference, the inferred type is the type of the first rule of the hint set, whose
  types are in order LON, LAT, ALT, TIME, TIME, ENUM, that matches the name and is not
  excluded: an excluded rule is passed over and the later rules are still tried. When no
  rule is left the type is SCALAR.
\<close>

theorem inferred_type_is_first_allowed_rule:
  assumes "opt_type opts = None"
    and "resolveType name opts = Inr (t, st)"
  shows "t = inferredTypeSpec name (defaultValue (opt_unallowedTypes opts) [])
         \<and> map snd typeHintSet = [LON, LAT, ALT, TIME, TIME, ENUM]"
proof -
  have "map snd typeHintSet = [LON, LAT, ALT, TIME, TIME, ENUM]"
    by (simp add: typeHintSet_def)
  moreover have "t = inferredTypeSpec name (defaultValue (opt_unallowedTypes opts) [])"
    using assms
    by (auto simp: resolveType_def setTypeAndSubTypeFromName_def inferredTypeSpec_def
        applyHintsToName_find indexOf_nonneg split: option.splits if_splits)
  ultimately show ?thesis by simp
qed

lemma resolveType_date_code:
  "resolveType ''date_code'' (noOptions\<lparr>opt_unallowedTypes := Some [TIME]\<rparr>) = Inr (ENUM, None)"
  by (simp add: resolveType_def noOptions_def defaultValue_def setTypeAndSubTypeFromName_def
      typeHintSet_def subtypeHintSet_def regex_defs)

text \<open>
  The name \<open>date_code\<close> matches the rule for TIME and the rule for ENUM; with TIME
  excluded the inferred type is ENUM, with nothing excluded it is TIME.
\<close>

theorem inferred_type_is_first_allowed_rule_witness:
  "opt_type (noOptions\<lparr>opt_unallowedTypes := Some [TIME]\<rparr>) = None
   \<and> resolveType ''date_code'' (noOptions\<lparr>opt_unallowedTypes := Some [TIME]\<rparr>) = Inr (ENUM, None)
   \<and> ENUM = inferredTypeSpec ''date_code'' [TIME]
   \<and> applyHintsToName typeHintSet ''date_code'' [] = Some TIME"
proof -
  have a: "opt_type (noOptions\<lparr>opt_unallowedTypes := Some [TIME]\<rparr>) = None"
    by (simp add: noOptions_def)
  have b: "applyHintsToName typeHintSet ''date_code'' [] = Some TIME"
    by (simp add: typeHintSet_def regex_defs)
  show ?thesis
    using inferred_type_is_first_allowed_rule [OF a resolveType_date_code] a
      resolveType_date_code b
    by (simp add: defaultValue_def)
qed

subsection \<open>The configuration error\<close>

lemma collect_Inl: "collect rs = Inl e \<Longrightarrow> Inl e \<in> set rs"
  by (induction rs) (auto split: sum.splits)

lemma calculateAvailability_error:
  "calculateAvailability c i = Inl e \<Longrightarrow>
     e \<noteq> DeveloperError ''No suitable variable type found.''"
  by (auto simp: calculateAvailability_def split: option.splits)

lemma calculateAvailabilities_error:
  "calculateAvailabilities c = Inl e \<Longrightarrow> e \<noteq> DeveloperError ''No suitable variable type found.''"
proof -
  assume "calculateAvailabilities c = Inl e"
  then have "Inl e \<in> set (map (calculateAvailability c) (map int [0..<length (col_values c)]))"
    unfolding calculateAvailabilities_def by (rule collect_Inl)
  then obtain i where "calculateAvailability c i = Inl e" by auto
  then show ?thesis by (rule calculateAvailability_error)
qed

lemma createClock_error:
  "createClock h c = Inl e \<Longrightarrow> e \<noteq> DeveloperError ''No suitable variable type found.''"
  by (auto simp: createClock_def Let_def split: option.splits if_splits)

lemma calculateFinishDates_error:
  "calculateFinishDates ds = Inl e \<Longrightarrow> e \<noteq> DeveloperError ''No suitable variable type found.''"
  by (auto simp: calculateFinishDates_def Let_def split: if_splits)

lemma timeFields_error:
  "timeFields h c = Inl e \<Longrightarrow> e \<noteq> DeveloperError ''No suitable variable type found.''"
  unfolding timeFields_def Let_def
  by (auto split: if_splits sum.splits
      dest: calculateFinishDates_error calculateAvailabilities_error createClock_error)

lemma resolveType_error:
  "resolveType name opts = Inl e \<longleftrightarrow>
     (e = DeveloperError ''No suitable variable type found.'' \<and> opt_type opts = None
      \<and> find (\<lambda>rule. test (fst rule) name
                     \<and> snd rule \<notin> set (defaultValue (opt_unallowedTypes opts) [])) typeHintSet = None
      \<and> SCALAR \<in> set (defaultValue (opt_unallowedTypes opts) []))"
  by (auto simp: resolveType_def setTypeAndSubTypeFromName_def applyHintsToName_find
      indexOf_nonneg split: option.splits)

text \<open>
  Claim C8. The constructor ends with the error \<open>No suitable variable type found.\<close>
  exactly when no type is given in the options, no rule of the hint set both matches the
  name and has a type that is not excluded, and SCALAR is excluded. The result is then
  the error and no column; in every other case the result is not this error.
\<close>

theorem no_suitable_type_error_iff:
  "newTableColumn h name vs opts = Inl (DeveloperError ''No suitable variable type found.'')
   \<longleftrightarrow> (opt_type opts = None
        \<and> find (\<lambda>rule. test (fst rule) name
                     \<and> snd rule \<notin> set (defaultValue (opt_unallowedTypes opts) [])) typeHintSet = None
        \<and> SCALAR \<in> set (defaultValue (opt_unallowedTypes opts) []))"
proof (cases "resolveType name opts")
  case (Inl e)
  then show ?thesis
    using resolveType_error [of name opts e] by (auto simp: newTableColumn_def)
next
  case (Inr ts)
  then have "\<not> (opt_type opts = None
        \<and> find (\<lambda>rule. test (fst rule) name
                     \<and> snd rule \<notin> set (defaultValue (opt_unallowedTypes opts) [])) typeHintSet = None
        \<and> SCALAR \<in> set (defaultValue (opt_unallowedTypes opts) []))"
    using resolveType_error [of name opts "DeveloperError ''No suitable variable type found.''"]
    by auto
  moreover have "newTableColumn h name vs opts \<noteq> Inl (DeveloperError ''No suitable variable type found.'')"
    using Inr by (auto simp: newTableColumn_def split: sum.splits dest: timeFields_error)
  ultimately show ?thesis by blast
qed

theorem no_suitable_type_error_iff_witness:
  "newTableColumn scenarioHost ''x'' [] (noOptions\<lparr>opt_unallowedTypes := Some [SCALAR]\<rparr>)
     = Inl (DeveloperError ''No suitable variable type found.'')
   \<and> newTableColumn scenarioHost ''x'' [] noOptions
     \<noteq> Inl (DeveloperError ''No suitable variable type found.'')"
  using no_suitable_type_error_iff
          [of scenarioHost "''x''" "[]" "noOptions\<lparr>opt_unallowedTypes := Some [SCALAR]\<rparr>"]
        no_suitable_type_error_iff [of scenarioHost "''x''" "[]" noOptions]
  by (simp add: noOptions_def defaultValue_def typeHintSet_def regex_defs)

subsection \<open>The scenario of the column Revenue\<close>

lemma resolveType_Revenue: "resolveType ''Revenue'' noOptions = Inr (SCALAR, None)"
  by (simp add: resolveType_def noOptions_def defaultValue_def setTypeAndSubTypeFromName_def
      typeHintSet_def subtypeHintSet_def regex_defs)

lemma revenue_extremes:
  "Math_min revenueNumbers = NaN" "Math_max revenueNumbers = NaN"
  "Math_min revenueStrings = NaN" "Math_max revenueStrings = NaN"
  by (simp_all add: revenueNumbers_def revenueStrings_def value_defs)

lemma revenue_repaired_extremes:
  "Math_min [JSNull, JSNumber (Fin 100), JSNull, JSNumber (Fin 250)] = Fin 0"
  "Math_max [JSNull, JSNumber (Fin 100), JSNull, JSNumber (Fin 250)] = Fin 250"
  by (simp_all add: value_defs)

text \<open>
  With numbers for the amounts the two tokens are replaced by null, and the minimum is
  then taken over null, 100, null, 250, where null counts as 0.
\<close>

lemma revenue_numbers:
  "newTableColumn h ''Revenue'' revenueNumbers noOptions =
     Inr ((initialColumn ''Revenue'' revenueNumbers noOptions SCALAR None)
           \<lparr>col_values := [JSNull, JSNumber (Fin 100), JSNull, JSNumber (Fin 250)],
            col_minimumValue := Fin 0, col_maximumValue := Fin 250,
            col_numericalValues := [JSNumber (Fin 100), JSNumber (Fin 250)]\<rparr>)"
  apply (simp add: newTableColumn_def resolveType_Revenue)
  apply (simp add: initialColumn_def revenue_extremes reviseForBadNumbers_def)
  apply (simp add: revenueNumbers_def replaceWithNull_def defaultReplaceWithNullValues_def
      defaultValue_def noOptions_def revenue_repaired_extremes timeFields_def demoteToEnum_def
      updateForType_def usesIndicesIntoUniqueValues_def Let_def)
  done

text \<open>
  With strings for the amounts no cell is a number, nothing is replaced, and the column
  without a numeric minimum becomes an ENUM.
\<close>

lemma revenue_strings:
  "newTableColumn h ''Revenue'' revenueStrings noOptions =
     Inr ((initialColumn ''Revenue'' revenueStrings noOptions ENUM None)
           \<lparr>col_uniqueValues := Some revenueStrings,
            col_indicesIntoUniqueValues := Some [0, 1, 2, 3]\<rparr>)"
  apply (simp add: newTableColumn_def resolveType_Revenue)
  apply (simp add: initialColumn_def revenue_extremes reviseForBadNumbers_def)
  apply (simp add: revenueStrings_def defaultValue_def noOptions_def timeFields_def
      demoteToEnum_def updateForType_def usesIndicesIntoUniqueValues_def getUniqueValues_def
      addUnique_def Let_def)
  done

text \<open>
  Claim C1, as the code has it. For the column \<open>Revenue\<close> with default options: when the
  amounts are numbers, the constructor replaces the two tokens by null, the maximum is
  250 and the type stays SCALAR; when the amounts are strings, the values are left as
  they were, the minimum is \<open>NaN\<close> and the type ends as ENUM.
\<close>

theorem revenue_scenario:
  "(\<exists>c. newTableColumn h ''Revenue'' revenueNumbers noOptions = Inr c
        \<and> col_values c = [JSNull, JSNumber (Fin 100), JSNull, JSNumber (Fin 250)]
        \<and> col_maximumValue c = Fin 250
        \<and> col_type c = SCALAR)
   \<and> (\<exists>c. newTableColumn h ''Revenue'' revenueStrings noOptions = Inr c
        \<and> col_values c = revenueStrings
        \<and> col_minimumValue c = NaN
        \<and> col_type c = ENUM)"
  by (simp add: revenue_numbers revenue_strings initialColumn_def revenue_extremes)

theorem revenue_scenario_witness:
  "map_sum id col_maximumValue (newTableColumn scenarioHost ''Revenue'' revenueNumbers noOptions)
     = Inr (Fin 250)
   \<and> map_sum id col_type (newTableColumn scenarioHost ''Revenue'' revenueStrings noOptions)
     = Inr ENUM"
  using revenue_scenario [of scenarioHost] by auto

text \<open>
  The claim as stated fails: with numbers for the amounts the minimum is 0 and not 100,
  and with strings for the amounts nothing is replaced and the type is not SCALAR.
\<close>

theorem revenue_scenario_counterexample:
  "map_sum id col_minimumValue (newTableColumn scenarioHost ''Revenue'' revenueNumbers noOptions)
     = Inr (Fin 0)
   \<and> map_sum id col_minimumValue (newTableColumn scenarioHost ''Revenue'' revenueNumbers noOptions)
     \<noteq> Inr (Fin 100)
   \<and> map_sum id col_values (newTableColumn scenarioHost ''Revenue'' revenueStrings noOptions)
     = Inr revenueStrings
   \<and> map_sum id col_minimumValue (newTableColumn scenarioHost ''Revenue'' revenueStrings noOptions)
     = Inr NaN
   \<and> map_sum id col_type (newTableColumn scenarioHost ''Revenue'' revenueStrings noOptions)
     \<noteq> Inr SCALAR"
  by (simp add: revenue_numbers revenue_strings initialColumn_def revenue_extremes)

subsection \<open>Rounding\<close>

lemma halvings_bounds:
  "1 \<le> x \<Longrightarrow> x < 2 ^ Suc n \<Longrightarrow> 2 ^ halvings n x \<le> x \<and> x < 2 ^ Suc (halvings n x)"
proof (induction n arbitrary: x)
  case 0
  then show ?case by simp
next
  case (Suc n)
  show ?case
  proof (cases "x < 2")
    case True
    with Suc.prems show ?thesis by simp
  next
    case False
    then have "1 \<le> x / 2" "x / 2 < 2 ^ Suc n" using Suc.prems by simp_all
    from Suc.IH [OF this] False show ?thesis by simp
  qed
qed

lemma doublings_bounds:
  "x < 2 \<Longrightarrow> 1 \<le> x * 2 ^ n \<Longrightarrow>
     1 \<le> x * 2 ^ doublings n x \<and> x * 2 ^ doublings n x < 2"
proof (induction n arbitrary: x)
  case 0
  then show ?case by simp
next
  case (Suc n)
  show ?case
  proof (cases "1 \<le> x")
    case True
    with Suc.prems show ?thesis by simp
  next
    case False
    then have "x * 2 < 2" "1 \<le> x * 2 * 2 ^ n" using Suc.prems by (simp_all add: mult.assoc)
    from Suc.IH [OF this] False show ?thesis by (simp add: mult.assoc)
  qed
qed

text \<open>Below the smallest normal double the exponent stays at \<open>-1022\<close>.\<close>

lemma doublings_all: "x * 2 ^ n < 1 \<Longrightarrow> 0 \<le> x \<Longrightarrow> doublings n x = n"
proof (induction n arbitrary: x)
  case 0
  then show ?case by simp
next
  case (Suc n)
  have "(1::real) \<le> 2 ^ Suc n" by (rule one_le_power) simp
  then have "x * 1 \<le> x * 2 ^ Suc n" using Suc.prems(2) by (rule mult_left_mono)
  then have "x < 1" using Suc.prems(1) by simp
  moreover have "x * 2 * 2 ^ n < 1" using Suc.prems(1) by (simp add: mult.assoc)
  ultimately show ?case using Suc.IH [of "x * 2"] Suc.prems(2) by simp
qed

lemma pow2_pos: "0 < pow2 e"
  by (simp add: pow2_def)

lemma pow2_powi: "pow2 e = 2 powi e"
  by (simp add: pow2_def power_int_def inverse_eq_divide power_one_over)

lemma pow2_minus_52: "pow2 (e - 52) = pow2 e / 2 ^ 52"
  by (simp add: pow2_powi power_int_diff)

lemma exponent_bounds:
  assumes "1 / 2 ^ 1022 \<le> x" and "x < 2 ^ 1024"
  shows "pow2 (exponentOf x) \<le> x \<and> x < 2 * pow2 (exponentOf x)"
proof (cases "1 \<le> x")
  case True
  have "x < 2 ^ Suc 1024" using assms(2) by (simp del: power_Suc add: power_Suc [of 2 1024])
  from halvings_bounds [OF True this] True show ?thesis
    by (simp add: exponentOf_def pow2_def)
next
  case False
  define k where "k = doublings 1022 x"
  have "x < 2" using False by simp
  moreover have "1 \<le> x * 2 ^ 1022" using assms(1) by (simp add: field_simps)
  ultimately have b: "1 \<le> x * 2 ^ k" "x * 2 ^ k < 2"
    using doublings_bounds [of x 1022] by (simp_all add: k_def)
  have p: "pow2 (- int k) = 1 / 2 ^ k" by (simp add: pow2_def)
  have "1 / 2 ^ k \<le> x" "x < 2 * (1 / 2 ^ k)" using b by (simp_all add: field_simps)
  then show ?thesis using False by (simp add: exponentOf_def k_def [symmetric] p)
qed

lemma roundHalfEven_error: "\<bar>of_int (roundHalfEven y) - y\<bar> \<le> 1 / 2"
proof -
  have "of_int \<lfloor>y\<rfloor> \<le> y" "y < of_int \<lfloor>y\<rfloor> + 1" by linarith+
  then show ?thesis by (auto simp: roundHalfEven_def Let_def)
qed

lemma roundHalfEven_of_int: "roundHalfEven (of_int k) = k"
  by (simp add: roundHalfEven_def)

lemma roundHalfEven_ge: "of_int k \<le> y \<Longrightarrow> k \<le> roundHalfEven y"
proof -
  assume "of_int k \<le> y"
  then have "k \<le> \<lfloor>y\<rfloor>" by (simp add: le_floor_iff)
  then show ?thesis by (auto simp: roundHalfEven_def Let_def)
qed

text \<open>Rounding moves a number by at most half the distance between the doubles around it.\<close>

lemma roundToDouble_quantum: "\<bar>roundToDouble x - x\<bar> \<le> quantum x / 2"
proof (cases "x = 0")
  case True
  then show ?thesis by (simp add: roundToDouble_def quantum_def pow2_pos less_imp_le)
next
  case x0: False
  define q where "q = quantum x"
  define m where "m = roundHalfEven (\<bar>x\<bar> / q)"
  have q0: "0 < q" by (simp add: q_def quantum_def pow2_pos)
  have "\<bar>of_int m - \<bar>x\<bar> / q\<bar> \<le> 1 / 2" unfolding m_def by (rule roundHalfEven_error)
  then have "\<bar>of_int m - \<bar>x\<bar> / q\<bar> * q \<le> 1 / 2 * q"
    using q0 by (intro mult_right_mono) simp_all
  moreover have "\<bar>of_int m - \<bar>x\<bar> / q\<bar> * q = \<bar>of_int m * q - \<bar>x\<bar>\<bar>"
  proof -
    have "\<bar>of_int m - \<bar>x\<bar> / q\<bar> * q = \<bar>(of_int m - \<bar>x\<bar> / q) * q\<bar>"
      using q0 by (simp add: abs_mult)
    also have "(of_int m - \<bar>x\<bar> / q) * q = of_int m * q - \<bar>x\<bar>"
      using q0 by (simp add: left_diff_distrib)
    finally show ?thesis .
  qed
  ultimately have e: "\<bar>of_int m * q - \<bar>x\<bar>\<bar> \<le> q / 2" by simp
  have "sgn x * \<bar>x\<bar> = x" by (simp add: sgn_mult_abs)
  then have "roundToDouble x - x = sgn x * (of_int m * q - \<bar>x\<bar>)"
    using x0 by (simp add: roundToDouble_def q_def m_def right_diff_distrib)
  then have "\<bar>roundToDouble x - x\<bar> = \<bar>of_int m * q - \<bar>x\<bar>\<bar>"
    using x0 by (simp add: abs_mult abs_sgn_eq)
  with e show ?thesis by (simp add: q_def)
qed

text \<open>In the range of the normal doubles rounding changes a number by at most one part in \<open>2 ^ 53\<close>.\<close>

lemma roundToDouble_error:
  assumes "1 / 2 ^ 1022 \<le> \<bar>x\<bar>" and "\<bar>x\<bar> < 2 ^ 1024"
  shows "\<bar>roundToDouble x - x\<bar> \<le> \<bar>x\<bar> / 2 ^ 53"
proof -
  have "pow2 (exponentOf \<bar>x\<bar>) \<le> \<bar>x\<bar>" using exponent_bounds [OF assms] by simp
  then have "quantum x \<le> \<bar>x\<bar> / 2 ^ 52"
    by (simp add: quantum_def pow2_minus_52 divide_right_mono)
  with roundToDouble_quantum [of x] show ?thesis by simp
qed

text \<open>Below them it changes a number by at most half the distance between the smallest doubles.\<close>

lemma roundToDouble_error_small:
  assumes "\<bar>x\<bar> < 1 / 2 ^ 1022"
  shows "\<bar>roundToDouble x - x\<bar> \<le> 1 / 2 ^ 1075"
proof -
  have "\<bar>x\<bar> * 2 ^ 1022 < 1" using assms by (simp add: field_simps)
  then have d: "doublings 1022 \<bar>x\<bar> = 1022" by (intro doublings_all) simp_all
  have "\<bar>x\<bar> < 1"
  proof -
    have "(1::real) / 2 ^ 1022 \<le> 1" by simp
    with assms show ?thesis by linarith
  qed
  then have "exponentOf \<bar>x\<bar> = - 1022" using d by (simp add: exponentOf_def)
  then have "quantum x = 1 / 2 ^ 1074" by (simp add: quantum_def pow2_def)
  with roundToDouble_quantum [of x] show ?thesis by simp
qed

lemma roundToDouble_error_all:
  assumes "\<bar>x\<bar> < 2 ^ 1024"
  shows "\<bar>roundToDouble x - x\<bar> \<le> \<bar>x\<bar> / 2 ^ 53 + 1 / 2 ^ 1075"
proof (cases "1 / 2 ^ 1022 \<le> \<bar>x\<bar>")
  case True
  have "\<bar>roundToDouble x - x\<bar> \<le> \<bar>x\<bar> / 2 ^ 53" by (rule roundToDouble_error [OF True assms])
  moreover have "(0::real) \<le> 1 / 2 ^ 1075" by simp
  ultimately show ?thesis by linarith
next
  case False
  then have "\<bar>roundToDouble x - x\<bar> \<le> 1 / 2 ^ 1075" by (intro roundToDouble_error_small) simp
  moreover have "0 \<le> \<bar>x\<bar> / 2 ^ 53" by simp
  ultimately show ?thesis by linarith
qed

text \<open>A whole number below \<open>2 ^ 53\<close> is a double.\<close>

lemma roundToDouble_of_int:
  assumes "\<bar>n\<bar> < 2 ^ 53"
  shows "roundToDouble (of_int n) = of_int n"
proof (cases "n = 0")
  case True
  then show ?thesis by (simp add: roundToDouble_def)
next
  case False
  define x :: real where "x = \<bar>of_int n\<bar>"
  define e where "e = halvings 1024 x"
  have x1: "1 \<le> x" using False by (simp add: x_def)
  have x53: "x < 2 ^ 53"
  proof -
    have "real_of_int \<bar>n\<bar> < real_of_int (2 ^ 53)" using assms by (simp only: of_int_less_iff)
    then show ?thesis by (simp add: x_def)
  qed
  have "(2::real) ^ 53 \<le> 2 ^ Suc 1024" by (intro power_increasing) simp_all
  with x53 have "x < 2 ^ Suc 1024" by linarith
  from halvings_bounds [OF x1 this] have b: "2 ^ e \<le> x" by (simp add: e_def)
  have e52: "e \<le> 52"
  proof (rule ccontr)
    assume "\<not> e \<le> 52"
    then have "53 \<le> e" by simp
    then have "(2::real) ^ 53 \<le> 2 ^ e" by (intro power_increasing) simp_all
    with b x53 show False by linarith
  qed
  have ex: "exponentOf x = int e" using x1 by (simp add: exponentOf_def e_def)
  have "nat (52 - int e) = 52 - e" using e52 by simp
  then have "pow2 (int e - 52) = 1 / 2 ^ (52 - e)" using e52 by (simp add: pow2_def)
  then have q: "quantum (of_int n) = 1 / 2 ^ (52 - e)"
    by (simp add: quantum_def x_def [symmetric] ex)
  have "x / (1 / 2 ^ (52 - e)) = of_int (\<bar>n\<bar> * 2 ^ (52 - e))" by (simp add: x_def)
  then have "roundHalfEven (x / (1 / 2 ^ (52 - e))) = \<bar>n\<bar> * 2 ^ (52 - e)"
    by (simp only: roundHalfEven_of_int)
  then have "roundToDouble (of_int n) = sgn (of_int n) * (of_int (\<bar>n\<bar> * 2 ^ (52 - e)) * (1 / 2 ^ (52 - e)))"
    using False by (simp add: roundToDouble_def q x_def)
  also have "\<dots> = sgn (of_int n) * \<bar>of_int n\<bar>" by simp
  also have "\<dots> = of_int n" by (simp only: sgn_mult_abs)
  finally show ?thesis .
qed

text \<open>Rounding does not take a number from 1 on below 1.\<close>

lemma roundToDouble_ge_1:
  assumes "1 \<le> x" and "x < 2"
  shows "1 \<le> roundToDouble x"
proof -
  have ex: "exponentOf \<bar>x\<bar> = 0" using assms by (simp add: exponentOf_def halvings_numeral)
  have q: "quantum x = 1 / 2 ^ 52" by (simp add: quantum_def ex pow2_def)
  have "of_int (2 ^ 52) \<le> \<bar>x\<bar> / (1 / 2 ^ 52)" using assms by simp
  then have "2 ^ 52 \<le> roundHalfEven (\<bar>x\<bar> / (1 / 2 ^ 52))" by (rule roundHalfEven_ge)
  then have "real_of_int (2 ^ 52) \<le> of_int (roundHalfEven (\<bar>x\<bar> / (1 / 2 ^ 52)))"
    by (simp only: of_int_le_iff)
  then have "1 \<le> real_of_int (roundHalfEven (\<bar>x\<bar> / (1 / 2 ^ 52))) * (1 / 2 ^ 52)"
    by simp
  then show ?thesis using assms by (simp add: roundToDouble_def q)
qed

subsection \<open>Instants\<close>

lemmas julian_defs =
  JulianDate_compare_def JulianDate_equals_def JulianDate_greaterThan_def
  JulianDate_lessThan_def JulianDate_secondsDifference_def JulianDate_addSeconds_def
  JulianDate_addMinutes_def setComponents_def

text \<open>Instants of whole seconds.\<close>

lemma ToInt32_0: "0 \<le> x \<Longrightarrow> x < 1 \<Longrightarrow> ToInt32 x = 0"
proof -
  assume "0 \<le> x" "x < 1"
  then have "\<lfloor>x\<rfloor> = 0" by linarith
  then show ?thesis using \<open>0 \<le> x\<close> by (simp add: ToInt32_def)
qed

lemma ToInt32_1: "1 \<le> x \<Longrightarrow> x < 2 \<Longrightarrow> ToInt32 x = 1"
proof -
  assume "1 \<le> x" "x < 2"
  then have "\<lfloor>x\<rfloor> = 1" by linarith
  then show ?thesis using \<open>1 \<le> x\<close> by (simp add: ToInt32_def)
qed

text \<open>A whole number of seconds within the day is kept as it is.\<close>

lemma setComponents_same_day:
  assumes "0 \<le> n" and "n \<le> 86399"
  shows "setComponents w (of_int n) = \<lparr>dayNumber = w, secondsOfDay = of_int n\<rparr>"
proof -
  define v :: real where "v = of_int n / 86400"
  have v0: "0 \<le> v" and v1: "v \<le> 86399 / 86400" using assms by (simp_all add: v_def)
  have r: "0 \<le> roundToDouble v \<and> roundToDouble v < 1"
  proof (cases "n = 0")
    case True
    then show ?thesis by (simp add: v_def roundToDouble_def)
  next
    case False
    then have "1 \<le> n" using assms(1) by simp
    then have "1 / 86400 \<le> v" by (simp add: v_def)
    moreover have "(1::real) / 2 ^ 1022 \<le> 1 / 86400" by simp
    ultimately have lo: "1 / 2 ^ 1022 \<le> \<bar>v\<bar>" using v0 by linarith
    have "(1::real) \<le> 2 ^ 1024" by (rule one_le_power) simp
    then have hi: "\<bar>v\<bar> < 2 ^ 1024" using v0 v1 by linarith
    have e: "\<bar>roundToDouble v - v\<bar> \<le> \<bar>v\<bar> / 2 ^ 53" by (rule roundToDouble_error [OF lo hi])
    have "\<bar>v\<bar> / 2 ^ 53 \<le> v / 2" using v0 by simp
    moreover have "\<bar>v\<bar> / 2 ^ 53 \<le> 1 / 172800"
    proof -
      have "\<bar>v\<bar> / 2 ^ 53 \<le> 1 / 2 ^ 53" using v0 v1 by (intro divide_right_mono) simp_all
      also have "\<dots> \<le> (1::real) / 172800" by simp
      finally show ?thesis .
    qed
    ultimately show ?thesis using e v0 v1 by linarith
  qed
  then have t: "ToInt32 (roundToDouble v) = 0" by (intro ToInt32_0) simp_all
  have n53: "\<bar>n\<bar> < 2 ^ 53" using assms by simp
  have z: "roundToDouble 0 = 0" by (simp add: roundToDouble_def)
  show ?thesis
    using assms(1)
    by (simp add: setComponents_def v_def [symmetric] t z roundToDouble_of_int [OF n53] Let_def)
qed

text \<open>A whole number of seconds within the next day moves to that day.\<close>

lemma setComponents_next_day:
  assumes "86400 \<le> n" and "n \<le> 172799"
  shows "setComponents w (of_int n) = \<lparr>dayNumber = w + 1, secondsOfDay = of_int (n - 86400)\<rparr>"
proof -
  define v :: real where "v = of_int n / 86400"
  have v0: "1 \<le> v" and v1: "v \<le> 172799 / 86400" using assms by (simp_all add: v_def)
  have lo: "1 / 2 ^ 1022 \<le> \<bar>v\<bar>"
  proof -
    have "(1::real) / 2 ^ 1022 \<le> 1" by simp
    with v0 show ?thesis by linarith
  qed
  have "(2::real) ^ 1 \<le> 2 ^ 1024" by (rule power_increasing) simp_all
  then have hi: "\<bar>v\<bar> < 2 ^ 1024" using v0 v1 by simp
  have e: "\<bar>roundToDouble v - v\<bar> \<le> \<bar>v\<bar> / 2 ^ 53" by (rule roundToDouble_error [OF lo hi])
  have "\<bar>v\<bar> / 2 ^ 53 \<le> 1 / 172800"
  proof -
    have "\<bar>v\<bar> / 2 ^ 53 \<le> 2 / 2 ^ 53" using v0 v1 by (intro divide_right_mono) simp_all
    also have "\<dots> \<le> (1::real) / 172800" by simp
    finally show ?thesis .
  qed
  then have "roundToDouble v < 2" using e v0 v1 by linarith
  moreover have "1 \<le> roundToDouble v" using v0 v1 by (intro roundToDouble_ge_1) simp_all
  ultimately have t: "ToInt32 (roundToDouble v) = 1" by (intro ToInt32_1)
  have n53: "\<bar>n - 86400\<bar> < 2 ^ 53" using assms by simp
  have r: "roundToDouble (real_of_int n - 86400) = of_int (n - 86400)"
    using roundToDouble_of_int [OF n53] by simp
  have "roundToDouble (86400 * real_of_int 1) = 86400"
    using roundToDouble_of_int [of 86400] by simp
  then show ?thesis
    using assms(1) by (simp add: setComponents_def v_def [symmetric] t r Let_def)
qed

lemma roundToDouble_numerals:
  "roundToDouble 0 = 0" "roundToDouble 86400 = 86400" "roundToDouble 172800 = 172800"
  "roundToDouble 1440 = 1440"
  using roundToDouble_of_int [of 0] roundToDouble_of_int [of 86400]
    roundToDouble_of_int [of 172800] roundToDouble_of_int [of 1440]
  by simp_all

subsection \<open>Finish dates\<close>

text \<open>The comparison orders the instants by day number and then by seconds.\<close>

lemma lessThan_iff:
  "JulianDate_lessThan a b \<longleftrightarrow>
     dayNumber a < dayNumber b \<or> (dayNumber a = dayNumber b \<and> secondsOfDay a < secondsOfDay b)"
  by (auto simp: JulianDate_lessThan_def JulianDate_compare_def Let_def)

lemma equals_iff: "JulianDate_equals a b = (a = b)"
  by (cases a, cases b) (auto simp: JulianDate_equals_def)

lemma greaterThan_iff: "JulianDate_greaterThan a b = JulianDate_lessThan b a"
  by (auto simp: JulianDate_greaterThan_def JulianDate_lessThan_def JulianDate_compare_def Let_def)

lemma not_lessThan_cases:
  "\<not> JulianDate_lessThan b a \<Longrightarrow> a \<noteq> b \<Longrightarrow> JulianDate_lessThan a b"
  by (cases a, cases b) (auto simp: lessThan_iff)

lemma lessThan_trans:
  "JulianDate_lessThan a b \<Longrightarrow> \<not> JulianDate_lessThan c b \<Longrightarrow> JulianDate_lessThan a c"
  by (auto simp: lessThan_iff)

lemma keepChanged_remdups_adj: "x # keepChanged x xs = remdups_adj (x # xs)"
  by (induction xs arbitrary: x) (auto simp: equals_iff)

lemma filterRepeated_remdups_adj: "filterRepeated xs = remdups_adj xs"
proof (cases xs)
  case Nil
  then show ?thesis by (simp add: filterRepeated_def)
next
  case (Cons x ys)
  then show ?thesis
    by (simp add: filterRepeated_def keepChanged_remdups_adj del: remdups_adj.simps)
qed

lemma set_insertDate: "set (insertDate d xs) = insert d (set xs)"
  by (induction xs) auto

lemma lessThan_asym: "JulianDate_lessThan a b \<Longrightarrow> \<not> JulianDate_lessThan b a"
  by (auto simp: lessThan_iff)

lemma lessThan_trans2:
  "JulianDate_lessThan a b \<Longrightarrow> JulianDate_lessThan b c \<Longrightarrow> JulianDate_lessThan a c"
  by (auto simp: lessThan_iff)

lemma not_lessThan_trans:
  "\<not> JulianDate_lessThan b a \<Longrightarrow> \<not> JulianDate_lessThan c b \<Longrightarrow> \<not> JulianDate_lessThan c a"
  by (auto simp: lessThan_iff)

lemma sorted_insertDate:
  "sorted_wrt (\<lambda>a b. \<not> JulianDate_lessThan b a) xs \<Longrightarrow>
     sorted_wrt (\<lambda>a b. \<not> JulianDate_lessThan b a) (insertDate d xs)"
proof (induction xs)
  case Nil
  show ?case by simp
next
  case (Cons x xs)
  have tl: "sorted_wrt (\<lambda>a b. \<not> JulianDate_lessThan b a) xs"
    and hd: "\<And>y. y \<in> set xs \<Longrightarrow> \<not> JulianDate_lessThan y x"
    using Cons.prems by simp_all
  show ?case
  proof (cases "JulianDate_compare d x < 0")
    case True
    then have dx: "JulianDate_lessThan d x" by (simp add: JulianDate_lessThan_def)
    have "\<not> JulianDate_lessThan y d" if "y \<in> set (x # xs)" for y
    proof (cases "y = x")
      case True
      with dx show ?thesis by (simp add: lessThan_asym)
    next
      case False
      with that have "\<not> JulianDate_lessThan y x" using hd by simp
      then show ?thesis using dx lessThan_trans2 by blast
    qed
    then have "sorted_wrt (\<lambda>a b. \<not> JulianDate_lessThan b a) (d # x # xs)"
      using Cons.prems by (simp del: sorted_wrt.simps add: sorted_wrt.simps(2) [of _ d])
    with True show ?thesis by simp
  next
    case False
    then have dx: "\<not> JulianDate_lessThan d x" by (simp add: JulianDate_lessThan_def)
    have "\<not> JulianDate_lessThan y x" if "y \<in> set (insertDate d xs)" for y
      using that dx hd by (auto simp: set_insertDate)
    then have "sorted_wrt (\<lambda>a b. \<not> JulianDate_lessThan b a) (x # insertDate d xs)"
      using Cons.IH [OF tl] by simp
    with False show ?thesis by simp
  qed
qed

lemma set_sortDates: "set (sortDates ds) = set ds"
  by (induction ds) (simp_all add: sortDates_def set_insertDate)

lemma sorted_sortDates: "sorted_wrt (\<lambda>a b. \<not> JulianDate_lessThan b a) (sortDates ds)"
  by (induction ds) (simp_all add: sortDates_def sorted_insertDate)

lemma strict_sorted_remdups_adj:
  "sorted_wrt (\<lambda>a b. \<not> JulianDate_lessThan b a) xs \<Longrightarrow>
     sorted_wrt JulianDate_lessThan (remdups_adj xs)"
proof (induction xs rule: remdups_adj.induct)
  case (3 x y xs)
  show ?case
  proof (cases "x = y")
    case True
    with 3 show ?thesis by auto
  next
    case False
    have xy: "JulianDate_lessThan x y" using 3(3) False by (auto intro: not_lessThan_cases)
    have "JulianDate_lessThan x z" if "z \<in> set (y # xs)" for z
    proof (cases "z = y")
      case True
      with xy show ?thesis by simp
    next
      case False
      with that have "z \<in> set xs" by simp
      then have "\<not> JulianDate_lessThan z y" using 3(3) by auto
      with xy show ?thesis by (rule lessThan_trans)
    qed
    with False 3 show ?thesis by auto
  qed
qed simp_all

text \<open>The revised dates are the deduplicated ascending list of the instants.\<close>

lemma revisedDates_strict: "sorted_wrt JulianDate_lessThan (revisedDatesOf julianDates)"
  by (simp add: revisedDatesOf_def filterRepeated_remdups_adj strict_sorted_remdups_adj
      sorted_sortDates)

lemma revisedDates_set: "set (revisedDatesOf julianDates) = set julianDates"
  by (simp add: revisedDatesOf_def filterRepeated_remdups_adj set_sortDates)

lemma revisedDates_Nil: "(revisedDatesOf julianDates = []) = (julianDates = [])"
  using revisedDates_set [of julianDates] by (metis set_empty)

lemma length_innerEndDates: "length (innerEndDates D) = length D - 1"
  by (induction D rule: innerEndDates.induct) auto

lemma innerEndDates_nth:
  "Suc k < length D \<Longrightarrow> innerEndDates D ! k = endDate (D ! k) (D ! Suc k)"
proof (induction D arbitrary: k rule: innerEndDates.induct)
  case (1 d r ds)
  then show ?case by (cases k) auto
qed simp_all

lemma length_endDatesOf: "D \<noteq> [] \<Longrightarrow> length (endDatesOf D) = length D"
  by (cases D) (simp_all add: endDatesOf_def length_innerEndDates)

text \<open>The end dates that the code computes are those of the rule.\<close>

lemma endDatesOf_nth:
  assumes "k < length D"
  shows "endDatesOf D ! k = finishSpec D k"
proof (cases "Suc k < length D")
  case True
  then have "k < length (innerEndDates D)" by (simp add: length_innerEndDates)
  with True have "endDatesOf D ! k = endDate (D ! k) (D ! Suc k)"
    by (simp add: endDatesOf_def nth_append innerEndDates_nth)
  then show ?thesis using True
    by (auto simp: finishSpec_def endDate_def Let_def)
next
  case False
  with assms have k: "k = length D - 1" and ne: "D \<noteq> []" by auto
  then have "endDatesOf D ! k = JulianDate_addSeconds (last D) (finalDurationSecondsOf D)"
    by (simp add: endDatesOf_def nth_append length_innerEndDates)
  moreover have "last D = D ! k" "hd D = D ! 0"
    using k ne by (simp_all add: last_conv_nth hd_conv_nth)
  ultimately show ?thesis using False k
    by (auto simp: finishSpec_def finalDurationSecondsOf_def defaultFinalDurationSeconds_def
        Let_def)
qed

lemma endDatesOf_map:
  assumes "D \<noteq> []"
  shows "endDatesOf D = map (finishSpec D) [0..<length D]"
  using length_endDatesOf [OF assms] endDatesOf_nth
  by (intro nth_equalityI) simp_all

lemma firstGreater_find:
  "firstGreater es startDate = find (\<lambda>e. JulianDate_greaterThan e startDate) es"
  by (induction es) auto


lemma calculateFinishDates_rows:
  assumes "jds \<noteq> []"
  shows "calculateFinishDates jds =
           Inr (map (firstGreater (endDatesOf (revisedDatesOf jds))) jds)"
proof -
  have ne: "revisedDatesOf jds \<noteq> []" using assms by (simp add: revisedDates_Nil)
  have "finishDate (revisedDatesOf jds) (endDatesOf (revisedDatesOf jds))
          = firstGreater (endDatesOf (revisedDatesOf jds))"
    using length_endDatesOf [OF ne] by (intro ext) (simp add: finishDate_def)
  then show ?thesis using ne by (simp add: calculateFinishDates_def Let_def)
qed

lemma length_finish:
  assumes "calculateFinishDates jds = Inr finish"
  shows "length finish = length jds"
  using assms by (auto simp: calculateFinishDates_def Let_def split: if_splits)

subsection \<open>What the constructor stores\<close>

lemma mapOrThrow_length: "mapOrThrow f xs = Some ys \<Longrightarrow> length ys = length xs"
  by (induction xs arbitrary: ys) (auto split: option.splits)

lemma collect_map_Inr:
  assumes "\<And>x. x \<in> set xs \<Longrightarrow> f x = Inr (g x)"
  shows "collect (map f xs) = Inr (map g xs)"
  using assms by (induction xs) auto

lemma updateForType_fields [simp]:
  "col_type (updateForType c) = col_type c"
  "col_values (updateForType c) = col_values c"
  "col_minimumValue (updateForType c) = col_minimumValue c"
  "col_dates (updateForType c) = col_dates c"
  "col_julianDates (updateForType c) = col_julianDates c"
  "col_finishJulianDates (updateForType c) = col_finishJulianDates c"
  "col_availabilities (updateForType c) = col_availabilities c"
  "col_clock (updateForType c) = col_clock c"
  "col_displayDuration (updateForType c) = col_displayDuration c"
  by (simp_all add: updateForType_def Let_def split: option.splits)

lemma demoteToEnum_fields [simp]:
  "col_values (demoteToEnum c) = col_values c"
  "col_minimumValue (demoteToEnum c) = col_minimumValue c"
  "col_dates (demoteToEnum c) = col_dates c"
  "col_julianDates (demoteToEnum c) = col_julianDates c"
  "col_finishJulianDates (demoteToEnum c) = col_finishJulianDates c"
  "col_availabilities (demoteToEnum c) = col_availabilities c"
  "col_clock (demoteToEnum c) = col_clock c"
  "col_displayDuration (demoteToEnum c) = col_displayDuration c"
  "(col_type (demoteToEnum c) = TIME) = (col_type c = TIME)"
  by (simp_all add: demoteToEnum_def)

lemma reviseForBadNumbers_fields [simp]:
  "col_type (reviseForBadNumbers c r) = col_type c"
  "col_subtype (reviseForBadNumbers c r) = col_subtype c"
  "col_dates (reviseForBadNumbers c r) = col_dates c"
  "col_julianDates (reviseForBadNumbers c r) = col_julianDates c"
  "col_finishJulianDates (reviseForBadNumbers c r) = col_finishJulianDates c"
  "col_availabilities (reviseForBadNumbers c r) = col_availabilities c"
  "col_clock (reviseForBadNumbers c r) = col_clock c"
  "col_displayDuration (reviseForBadNumbers c r) = col_displayDuration c"
  "col_type c \<noteq> SCALAR \<Longrightarrow> col_values (reviseForBadNumbers c r) = col_values c"
  "col_type c \<noteq> SCALAR \<Longrightarrow> col_minimumValue (reviseForBadNumbers c r) = col_minimumValue c"
  by (simp_all add: reviseForBadNumbers_def Let_def)

text \<open>What the constructor has stored when it ends with a column of type TIME.\<close>

lemma timeFields_TIME:
  assumes "timeFields h c0 = Inr c" and "col_type c = TIME"
  shows "col_type c0 = TIME
     \<and> (\<exists>jds finish avs.
           jds \<noteq> [] \<and> length jds = length (col_values c0)
         \<and> calculateFinishDates jds = Inr finish
         \<and> calculateAvailabilities
              (c0\<lparr>col_dates := Some jds, col_julianDates := Some jds,
                  col_subtype := fst (convertToDates h (col_subtype c0) (col_values c0)),
                  col_finishJulianDates := Some finish\<rparr>) = Inr avs
         \<and> col_julianDates c = Some jds \<and> col_finishJulianDates c = Some finish
         \<and> col_availabilities c = Some avs
         \<and> col_values c = col_values c0
         \<and> col_displayDuration c = col_displayDuration c0)"
proof -
  have t: "col_type c0 = TIME"
    using assms by (auto simp: timeFields_def Let_def split: if_splits sum.splits)
  define jds where "jds = snd (convertToDates h (col_subtype c0) (col_values c0))"
  have ne: "jds \<noteq> []"
    using assms t by (auto simp: timeFields_def Let_def jds_def split: if_splits sum.splits)
  have len: "length jds = length (col_values c0)"
    using ne unfolding jds_def convertToDates_def Let_def
    by (auto split: option.splits dest: mapOrThrow_length)
  show ?thesis
    using assms t ne len unfolding timeFields_def Let_def jds_def [symmetric]
    by (auto split: if_splits sum.splits)
qed

lemma newTableColumn_TIME:
  assumes "newTableColumn h name vs opts = Inr c" and "col_type c = TIME"
  shows "\<exists>jds finish avs c2.
           jds \<noteq> [] \<and> length jds = length vs
         \<and> calculateFinishDates jds = Inr finish
         \<and> calculateAvailabilities c2 = Inr avs
         \<and> col_julianDates c2 = Some jds \<and> col_finishJulianDates c2 = Some finish
         \<and> col_displayDuration c2 = opt_displayDuration opts
         \<and> col_values c2 = vs
         \<and> col_julianDates c = Some jds \<and> col_finishJulianDates c = Some finish
         \<and> col_availabilities c = Some avs
         \<and> col_values c = vs
         \<and> col_displayDuration c = opt_displayDuration opts"
proof -
  obtain ts c1 where ts: "resolveType name opts = Inr ts"
    and c1: "timeFields h (reviseForBadNumbers (initialColumn name vs opts (fst ts) (snd ts))
               (defaultValue (opt_replaceWithNullValues opts) defaultReplaceWithNullValues)) = Inr c1"
    and c: "c = updateForType (demoteToEnum c1)"
    using assms(1) by (auto simp: newTableColumn_def split: sum.splits)
  have "col_type c1 = TIME" using assms(2) c by simp
  from timeFields_TIME [OF c1 this] c show ?thesis
    apply (clarsimp simp: initialColumn_def)
    subgoal for jds finish avs
      apply (rule exI [of _ jds], simp)
      apply (rule exI [of _ "(reviseForBadNumbers (initialColumn name vs opts (fst ts) (snd ts))
               (defaultValue (opt_replaceWithNullValues opts) defaultReplaceWithNullValues))
               \<lparr>col_dates := Some jds, col_julianDates := Some jds,
                  col_subtype := fst (convertToDates h (snd ts) vs),
                  col_finishJulianDates := Some finish\<rparr>"])
      apply (simp add: initialColumn_def)
      done
    done
qed

subsection \<open>The scenario of the column Start date (AEST)\<close>

lemma scenario_finish:
  assumes "1 \<le> n" and "n \<le> 86399"
  shows "calculateFinishDates
           [\<lparr>dayNumber = d, secondsOfDay = of_int n\<rparr>, \<lparr>dayNumber = d + 1, secondsOfDay = of_int n\<rparr>]
         = Inr [Some \<lparr>dayNumber = d + 1, secondsOfDay = of_int n - 1\<rparr>,
                Some \<lparr>dayNumber = d + 2, secondsOfDay = of_int n\<rparr>]"
proof -
  have r: "revisedDatesOf
             [\<lparr>dayNumber = d, secondsOfDay = of_int n\<rparr>, \<lparr>dayNumber = d + 1, secondsOfDay = of_int n\<rparr>]
           = [\<lparr>dayNumber = d, secondsOfDay = of_int n\<rparr>, \<lparr>dayNumber = d + 1, secondsOfDay = of_int n\<rparr>]"
    by (simp add: revisedDatesOf_def sortDates_def filterRepeated_def JulianDate_compare_def
        JulianDate_equals_def)
  have s: "JulianDate_secondsDifference \<lparr>dayNumber = d + 1, secondsOfDay = of_int n\<rparr>
             \<lparr>dayNumber = d, secondsOfDay = of_int n\<rparr> = 86400"
    by (simp add: JulianDate_secondsDifference_def roundToDouble_numerals)
  have n1: "\<bar>n - 1\<bar> < 2 ^ 53" and n2: "\<bar>n + 86400\<bar> < 2 ^ 53" using assms by simp_all
  have a: "JulianDate_addSeconds \<lparr>dayNumber = d + 1, secondsOfDay = of_int n\<rparr> (- 1)
             = \<lparr>dayNumber = d + 1, secondsOfDay = of_int n - 1\<rparr>"
    using roundToDouble_of_int [OF n1] setComponents_same_day [of "n - 1" "d + 1"] assms
    by (simp add: JulianDate_addSeconds_def)
  have b: "JulianDate_addSeconds \<lparr>dayNumber = d + 1, secondsOfDay = of_int n\<rparr> 86400
             = \<lparr>dayNumber = d + 2, secondsOfDay = of_int n\<rparr>"
    using roundToDouble_of_int [OF n2] setComponents_next_day [of "n + 86400" "d + 1"] assms
    by (simp add: JulianDate_addSeconds_def)
  show ?thesis
    by (simp add: calculateFinishDates_def r endDatesOf_def finalDurationSecondsOf_def
        endDate_def s a b roundToDouble_numerals finishDate_def JulianDate_greaterThan_def
        JulianDate_compare_def Let_def)
qed

lemma resolveType_Start_date:
  "resolveType ''Start date (AEST)'' noOptions = Inr (TIME, None)"
  by (simp add: resolveType_def noOptions_def defaultValue_def setTypeAndSubTypeFromName_def
      typeHintSet_def subtypeHintSet_def regex_defs)

lemma scenarioDays_format: "chooseFormat h None scenarioDays = IsoFormat"
  by (simp add: chooseFormat_def firstPositionMaximumOf_def raiseMaximum_def parseInt_def
      scenarioDays_def value_defs js_greater_def js_greater_eq_def areAllIntegers_def
      isInteger_def Let_def)

lemma scenarioDays_extremes: "Math_min scenarioDays = NaN" "Math_max scenarioDays = NaN"
  by (simp_all add: scenarioDays_def value_defs)

lemma scenario_dates:
  assumes "JulianDate_fromIso8601 h ''2015-01-01'' = Some t1"
    and "JulianDate_fromIso8601 h ''2015-01-02'' = Some t2"
  shows "convertToDates h None scenarioDays = (None, [t1, t2])"
  using assms by (simp add: convertToDates_def scenarioDays_format) (simp add: scenarioDays_def)

lemma scenario_column:
  assumes "JulianDate_fromIso8601 h ''2015-01-01'' = Some \<lparr>dayNumber = d, secondsOfDay = of_int n\<rparr>"
    and "JulianDate_fromIso8601 h ''2015-01-02'' = Some \<lparr>dayNumber = d + 1, secondsOfDay = of_int n\<rparr>"
    and "1 \<le> n" and "n \<le> 86399"
    and "\<lparr>dayNumber = d, secondsOfDay = of_int n\<rparr> \<noteq> Iso8601_MINIMUM_VALUE h"
  shows "newTableColumn h ''Start date (AEST)'' scenarioDays noOptions =
     Inr ((initialColumn ''Start date (AEST)'' scenarioDays noOptions TIME None)
           \<lparr>col_dates := Some [\<lparr>dayNumber = d, secondsOfDay = of_int n\<rparr>,
                                \<lparr>dayNumber = d + 1, secondsOfDay = of_int n\<rparr>],
            col_julianDates := Some [\<lparr>dayNumber = d, secondsOfDay = of_int n\<rparr>,
                                      \<lparr>dayNumber = d + 1, secondsOfDay = of_int n\<rparr>],
            col_finishJulianDates :=
              Some [Some \<lparr>dayNumber = d + 1, secondsOfDay = of_int n - 1\<rparr>,
                    Some \<lparr>dayNumber = d + 2, secondsOfDay = of_int n\<rparr>],
            col_availabilities :=
              Some [[\<lparr>start = \<lparr>dayNumber = d, secondsOfDay = of_int n\<rparr>,
                      stop = \<lparr>dayNumber = d + 1, secondsOfDay = of_int n - 1\<rparr>\<rparr>],
                    [\<lparr>start = \<lparr>dayNumber = d + 1, secondsOfDay = of_int n\<rparr>,
                      stop = \<lparr>dayNumber = d + 2, secondsOfDay = of_int n\<rparr>\<rparr>]],
            col_clock :=
              Some \<lparr>startTime = \<lparr>dayNumber = d, secondsOfDay = of_int n\<rparr>,
                    stopTime = \<lparr>dayNumber = d + 2, secondsOfDay = of_int n\<rparr>,
                    currentTime = \<lparr>dayNumber = d, secondsOfDay = of_int n\<rparr>,
                    clockRange = LOOP_STOP, clockStep = SYSTEM_CLOCK_MULTIPLIER,
                    multiplier = 1440\<rparr>\<rparr>)"
  apply (simp add: newTableColumn_def resolveType_Start_date)
  apply (simp add: reviseForBadNumbers_def initialColumn_def timeFields_def
      scenario_dates [OF assms(1,2)] scenario_finish [OF assms(3,4)] Let_def)
  apply (simp add: calculateAvailabilities_def calculateAvailability_def scenarioDays_def
      element_def flatten_def TimeInterval_new_def addInterval_def isEmpty_def
      JulianDate_compare_def noOptions_def)
  apply (simp add: createClock_def addCollection_def collectionStart_def collectionStop_def
      newClock_def Math_round_def JulianDate_lessThan_def JulianDate_compare_def
      JulianDate_secondsDifference_def roundToDouble_numerals equals_iff assms(5) Let_def)
  apply (simp add: demoteToEnum_def updateForType_def usesIndicesIntoUniqueValues_def Let_def)
  done

text \<open>
  Claim C2, as the code has it. Let the ISO 8601 parser of the host read the two cells as
  the instant at a whole second \<open>n\<close> of a day \<open>d\<close>, other than the first second of
  the day and other than \<open>Iso8601.MINIMUM_VALUE\<close>, and the instant at the same second
  of the next day. Then the column named \<open>Start date (AEST)\<close> is built with type TIME,
  its two instants are ascending and one day apart, the first row ends one second before
  the second starts, the second row ends one average spacing (a day) after it starts,
  and the clock runs from the first instant to the end of the second row: two days, so
  its multiplier is \<open>round(172800 / 120) = 1440\<close>.
\<close>

theorem start_date_scenario:
  assumes "JulianDate_fromIso8601 h ''2015-01-01'' = Some \<lparr>dayNumber = d, secondsOfDay = of_int n\<rparr>"
    and "JulianDate_fromIso8601 h ''2015-01-02'' = Some \<lparr>dayNumber = d + 1, secondsOfDay = of_int n\<rparr>"
    and "1 \<le> n" and "n \<le> 86399"
    and "\<lparr>dayNumber = d, secondsOfDay = of_int n\<rparr> \<noteq> Iso8601_MINIMUM_VALUE h"
  shows "\<exists>c clk. newTableColumn h ''Start date (AEST)'' scenarioDays noOptions = Inr c
           \<and> col_type c = TIME
           \<and> col_julianDates c = Some [\<lparr>dayNumber = d, secondsOfDay = of_int n\<rparr>,
                                        \<lparr>dayNumber = d + 1, secondsOfDay = of_int n\<rparr>]
           \<and> col_finishJulianDates c
               = Some [Some \<lparr>dayNumber = d + 1, secondsOfDay = of_int n - 1\<rparr>,
                       Some \<lparr>dayNumber = d + 2, secondsOfDay = of_int n\<rparr>]
           \<and> col_clock c = Some clk
           \<and> startTime clk = \<lparr>dayNumber = d, secondsOfDay = of_int n\<rparr>
           \<and> stopTime clk = \<lparr>dayNumber = d + 2, secondsOfDay = of_int n\<rparr>
           \<and> currentTime clk = \<lparr>dayNumber = d, secondsOfDay = of_int n\<rparr>
           \<and> JulianDate_secondsDifference (stopTime clk) (startTime clk) = 172800
           \<and> multiplier clk = Math_round (172800 / 120)
           \<and> multiplier clk = 1440"
proof -
  have t: "JulianDate_secondsDifference \<lparr>dayNumber = d + 2, secondsOfDay = of_int n\<rparr>
             \<lparr>dayNumber = d, secondsOfDay = of_int n\<rparr> = 172800"
    by (simp add: JulianDate_secondsDifference_def roundToDouble_numerals)
  show ?thesis
    by (simp add: scenario_column [OF assms] initialColumn_def Math_round_def t)
qed

lemma scenarioHost_dates:
  "JulianDate_fromIso8601 scenarioHost ''2015-01-01'' = Some \<lparr>dayNumber = 2457023, secondsOfDay = of_int 43235\<rparr>"
  "JulianDate_fromIso8601 scenarioHost ''2015-01-02'' = Some \<lparr>dayNumber = 2457023 + 1, secondsOfDay = of_int 43235\<rparr>"
  "(1::int) \<le> 43235" "(43235::int) \<le> 86399"
  "\<lparr>dayNumber = 2457023, secondsOfDay = of_int 43235\<rparr> \<noteq> Iso8601_MINIMUM_VALUE scenarioHost"
  by (simp_all add: scenarioHost_def scenarioDates_def jan1_def jan2_def)

theorem start_date_scenario_witness:
  "\<exists>c clk. newTableColumn scenarioHost ''Start date (AEST)'' scenarioDays noOptions = Inr c
           \<and> col_type c = TIME
           \<and> col_julianDates c = Some [jan1, jan2]
           \<and> col_clock c = Some clk
           \<and> multiplier clk = 1440"
  using start_date_scenario [OF scenarioHost_dates] by (auto simp: jan1_def jan2_def)

lemma scenarioColumn_built:
  "newTableColumn scenarioHost ''Start date (AEST)'' scenarioDays noOptions = Inr scenarioColumn"
  by (simp add: scenario_column [OF scenarioHost_dates] scenarioColumn_def jan1_def jan2_def)

lemma scenarioColumn_type: "col_type scenarioColumn = TIME"
  by (simp add: scenarioColumn_def initialColumn_def)

text \<open>
  The claim as stated fails: the multiplier of the clock is 1440, not
  \<open>round(86400 / 120) = 720\<close>.
\<close>

theorem start_date_scenario_counterexample:
  "map_sum id (map_option multiplier \<circ> col_clock)
       (newTableColumn scenarioHost ''Start date (AEST)'' scenarioDays noOptions)
     = Inr (Some 1440)
   \<and> map_sum id (map_option multiplier \<circ> col_clock)
       (newTableColumn scenarioHost ''Start date (AEST)'' scenarioDays noOptions)
     \<noteq> Inr (Some 720)
   \<and> Math_round (86400 / 120) = 720"
  by (simp add: scenarioColumn_built scenarioColumn_def initialColumn_def Math_round_def)

subsection \<open>The finish date of every row\<close>

text \<open>
  Claim C4, as the code has it. For every column built with type TIME there is the
  deduplicated ascending list \<open>D\<close> of its instants, and the finish instant of a row is
  the first of the end dates \<open>finishSpec D 0\<close>, \<open>finishSpec D 1\<close>, ... that is strictly
  later than the row's instant; it is undefined when none of them is. The end date
  \<open>finishSpec D k\<close> is the one of the rule, computed in doubles: for \<open>k\<close> before the
  last, \<open>D ! (k + 1)\<close> minus one second when the gap is at least 20 seconds and
  \<open>D ! k\<close> plus the gap times 0.95 when it is under 20 seconds; for the last,
  \<open>D ! k\<close> plus the average spacing when there are several distinct instants, and
  plus 86399 seconds when there is one.
\<close>

theorem finish_instants_follow_the_rule:
  assumes "newTableColumn h name vs opts = Inr c" and "col_type c = TIME"
  shows "\<exists>jds finish D. col_julianDates c = Some jds \<and> col_finishJulianDates c = Some finish
     \<and> length finish = length jds
     \<and> sorted_wrt JulianDate_lessThan D \<and> set D = set jds
     \<and> (\<forall>i<length jds.
           finish ! i = find (\<lambda>e. JulianDate_greaterThan e (jds ! i))
                             (map (finishSpec D) [0..<length D]))"
proof -
  obtain jds finish where ne: "jds \<noteq> []" and f: "calculateFinishDates jds = Inr finish"
    and j: "col_julianDates c = Some jds" and ff: "col_finishJulianDates c = Some finish"
    using newTableColumn_TIME [OF assms] by blast
  define D where "D = revisedDatesOf jds"
  have rne: "D \<noteq> []" using ne by (simp add: D_def revisedDates_Nil)
  have "finish = map (firstGreater (endDatesOf D)) jds"
    using f calculateFinishDates_rows [OF ne] by (simp add: D_def)
  then have "\<forall>i<length jds.
           finish ! i = find (\<lambda>e. JulianDate_greaterThan e (jds ! i))
                             (map (finishSpec D) [0..<length D])"
    by (simp add: firstGreater_find endDatesOf_map [OF rne])
  moreover have "sorted_wrt JulianDate_lessThan D" "set D = set jds"
    by (simp_all add: D_def revisedDates_strict revisedDates_set)
  ultimately show ?thesis
    using j ff length_finish [OF f]
    by (intro exI [of _ jds] exI [of _ finish] exI [of _ D]) simp
qed

theorem finish_instants_follow_the_rule_witness:
  "\<exists>jds finish D. col_julianDates scenarioColumn = Some jds
     \<and> col_finishJulianDates scenarioColumn = Some finish
     \<and> length finish = length jds
     \<and> sorted_wrt JulianDate_lessThan D \<and> set D = set jds
     \<and> (\<forall>i<length jds.
           finish ! i = find (\<lambda>e. JulianDate_greaterThan e (jds ! i))
                             (map (finishSpec D) [0..<length D]))"
  by (rule finish_instants_follow_the_rule [OF scenarioColumn_built scenarioColumn_type])

subsection \<open>Densely sampled instants\<close>

text \<open>
  Three instants of one day whose seconds are neighbouring doubles. Each sum of the rule
  is rounded back to a double: the end date of the first instant is the second instant,
  the end date of the second is the third, and the third instant plus the average
  spacing \<open>1 / 2 ^ 37\<close> is the third instant again.
\<close>

lemma dense_revised: "revisedDatesOf [dense0, dense1, dense2] = [dense0, dense1, dense2]"
  by (simp add: revisedDatesOf_def sortDates_def filterRepeated_def dense0_def dense1_def
      dense2_def JulianDate_compare_def JulianDate_equals_def)

lemma dense_endDates:
  "endDate dense0 dense1 = dense1"
  "endDate dense1 dense2 = dense2"
  "JulianDate_addSeconds dense2 (finalDurationSecondsOf [dense0, dense1, dense2]) = dense2"
  apply (simp_all add: endDate_def finalDurationSecondsOf_def dense0_def dense1_def dense2_def
      julian_defs Let_def)
  apply (simp_all add: double_defs ToInt32_def)
  done

lemma dense_finish:
  "calculateFinishDates [dense0, dense1, dense2] = Inr [Some dense1, Some dense2, None]"
  apply (simp add: calculateFinishDates_def dense_revised endDatesOf_def dense_endDates
      finishDate_def Let_def)
  apply (simp add: dense0_def dense1_def dense2_def JulianDate_greaterThan_def
      JulianDate_compare_def)
  done

lemma denseStamps_format: "chooseFormat h None denseStamps = IsoFormat"
  by (simp add: chooseFormat_def firstPositionMaximumOf_def raiseMaximum_def parseInt_def
      denseStamps_def value_defs js_greater_def js_greater_eq_def areAllIntegers_def
      isInteger_def Let_def)

lemma denseStamps_extremes: "Math_min denseStamps = NaN" "Math_max denseStamps = NaN"
  by (simp_all add: denseStamps_def value_defs)

lemma dense_dates: "convertToDates denseHost None denseStamps = (None, [dense0, dense1, dense2])"
  by (simp add: convertToDates_def denseStamps_format)
     (simp add: denseStamps_def denseHost_def denseDates_def)

lemma dense_merge:
  "addCollection []
     (addCollection [\<lparr>start = dense1, stop = dense2\<rparr>]
        (addCollection [\<lparr>start = dense0, stop = dense1\<rparr>] []))
     = [\<lparr>start = dense0, stop = dense2\<rparr>]"
  by (simp add: addCollection_def JulianDate_lessThan_def JulianDate_compare_def
      dense0_def dense1_def dense2_def)

lemma dense_span: "JulianDate_secondsDifference dense2 dense0 = 1 / 2 ^ 36"
  by (simp add: JulianDate_secondsDifference_def dense0_def dense2_def double_defs)

lemma dense_multiplier: "Math_round (roundToDouble (1 / 8246337208320)) = 0"
  by (simp add: Math_round_def double_defs)

lemma dense_order:
  "\<not> JulianDate_compare dense1 dense0 < 0" "\<not> JulianDate_compare dense2 dense1 < 0"
  "JulianDate_compare JulianDate_new dense2 < 0"
  "\<not> JulianDate_equals dense0 (Iso8601_MINIMUM_VALUE denseHost)"
  by (simp_all add: JulianDate_compare_def JulianDate_equals_def JulianDate_new_def
      dense0_def dense1_def dense2_def denseHost_def scenarioHost_def)

lemma dense_column:
  "newTableColumn denseHost ''time'' denseStamps noOptions =
     Inr ((initialColumn ''time'' denseStamps noOptions TIME None)
           \<lparr>col_dates := Some [dense0, dense1, dense2],
            col_julianDates := Some [dense0, dense1, dense2],
            col_finishJulianDates := Some [Some dense1, Some dense2, None],
            col_availabilities :=
              Some [[\<lparr>start = dense0, stop = dense1\<rparr>], [\<lparr>start = dense1, stop = dense2\<rparr>], []],
            col_clock :=
              Some \<lparr>startTime = dense0, stopTime = dense2, currentTime = dense0,
                    clockRange = LOOP_STOP, clockStep = SYSTEM_CLOCK_MULTIPLIER,
                    multiplier = 0\<rparr>\<rparr>)"
  apply (simp add: newTableColumn_def resolveType_def noOptions_def defaultValue_def
      setTypeAndSubTypeFromName_def typeHintSet_def subtypeHintSet_def regex_defs)
  apply (simp add: reviseForBadNumbers_def initialColumn_def timeFields_def
      dense_dates dense_finish Let_def)
  apply (simp add: calculateAvailabilities_def calculateAvailability_def denseStamps_def
      element_def flatten_def TimeInterval_new_def addInterval_def isEmpty_def dense_order)
  apply (simp add: createClock_def dense_merge collectionStart_def collectionStop_def
      newClock_def dense_span dense_multiplier dense_order)
  apply (simp add: demoteToEnum_def updateForType_def usesIndicesIntoUniqueValues_def Let_def)
  done

text \<open>
  Claim C10 fails on the code. For the column of the three densely sampled time stamps
  the constructor ends with type TIME, the end dates are the second instant and twice the
  third: they are not strictly ascending and the last one is not later than the last
  instant. The scan finds no end date for the third row and falls off its end: the
  finish date of the third row is undefined.
\<close>

theorem finish_scan_falls_off_the_end:
  "map_sum id col_type (newTableColumn denseHost ''time'' denseStamps noOptions) = Inr TIME
   \<and> map_sum id col_julianDates (newTableColumn denseHost ''time'' denseStamps noOptions)
       = Inr (Some [dense0, dense1, dense2])
   \<and> map_sum id col_finishJulianDates (newTableColumn denseHost ''time'' denseStamps noOptions)
       = Inr (Some [Some dense1, Some dense2, None])
   \<and> revisedDatesOf [dense0, dense1, dense2] = [dense0, dense1, dense2]
   \<and> endDatesOf [dense0, dense1, dense2] = [dense1, dense2, dense2]
   \<and> \<not> JulianDate_greaterThan (last (endDatesOf [dense0, dense1, dense2])) dense2"
  by (simp add: dense_column initialColumn_def dense_revised endDatesOf_def dense_endDates
      JulianDate_greaterThan_def JulianDate_compare_def)

text \<open>
  A gap of 19.5 seconds: the end date is the rounded sum of the start and the rounded
  product of the gap and the double nearest to 0.95.
\<close>

lemma second20_finish:
  "calculateFinishDates
     [\<lparr>dayNumber = 2457023, secondsOfDay = 43235\<rparr>, \<lparr>dayNumber = 2457023, secondsOfDay = 43254.5\<rparr>]
   = Inr [Some \<lparr>dayNumber = 2457023, secondsOfDay = 5944719209974989 / 2 ^ 37\<rparr>,
          Some \<lparr>dayNumber = 2457023, secondsOfDay = 43274\<rparr>]"
  apply (simp add: calculateFinishDates_def revisedDatesOf_def sortDates_def filterRepeated_def
      JulianDate_compare_def JulianDate_equals_def endDatesOf_def Let_def)
  apply (simp add: endDate_def finalDurationSecondsOf_def julian_defs Let_def)
  apply (simp add: double_defs ToInt32_def)
  apply (simp add: finishDate_def JulianDate_greaterThan_def JulianDate_compare_def)
  done

text \<open>
  The claim as stated fails: the third of the densely sampled rows has no finish instant
  at all, where the claim gives the last instant plus the average spacing; and for a gap
  of 19.5 seconds the finish instant is second \<open>5944719209974989 / 2 ^ 37\<close> of the
  day, which is not \<open>43235 + 0.95 * 19.5\<close>.
\<close>

theorem finish_instants_follow_the_rule_counterexample:
  "map_sum id col_type (newTableColumn denseHost ''time'' denseStamps noOptions) = Inr TIME
   \<and> map_sum id col_julianDates (newTableColumn denseHost ''time'' denseStamps noOptions)
       = Inr (Some [dense0, dense1, dense2])
   \<and> map_sum id (map_option (\<lambda>finish. finish ! 2) \<circ> col_finishJulianDates)
         (newTableColumn denseHost ''time'' denseStamps noOptions)
       = Inr (Some None)
   \<and> calculateFinishDates
        [\<lparr>dayNumber = 2457023, secondsOfDay = 43235\<rparr>,
         \<lparr>dayNumber = 2457023, secondsOfDay = 43254.5\<rparr>]
       = Inr [Some \<lparr>dayNumber = 2457023, secondsOfDay = 5944719209974989 / 2 ^ 37\<rparr>,
              Some \<lparr>dayNumber = 2457023, secondsOfDay = 43274\<rparr>]
   \<and> (5944719209974989 / 2 ^ 37 :: real) \<noteq> 43235 + 0.95 * (43254.5 - 43235)"
  using second20_finish by (simp add: dense_column initialColumn_def)

subsection \<open>Availabilities\<close>











subsection \<open>A TIME column without dates\<close>

text \<open>What the constructor does with a TIME column of which no date could be read.\<close>

lemma unparsable_time_column:
  assumes "resolveType name opts = Inr (TIME, st)"
    and "snd (convertToDates h st vs) = []"
  shows "newTableColumn h name vs opts =
     Inr (updateForType
           ((initialColumn name vs opts TIME st)
              \<lparr>col_type := (if Math_min vs = NaN then ENUM else SCALAR),
               col_dates := Some [], col_julianDates := Some []\<rparr>))"
  using assms
  by (simp add: newTableColumn_def timeFields_def reviseForBadNumbers_def initialColumn_def
      demoteToEnum_def Let_def)

text \<open>
  Claim C6, as the code has it. For every column whose resolved type is TIME and of
  which no value is read as a date, the constructor ends without an error; the final
  type is SCALAR when the minimum of the values is a number and ENUM when it is
  \<open>NaN\<close>; the JavaScript dates and the instants are empty arrays; the finish dates, the
  availabilities and the clock stay undefined.
\<close>

theorem time_column_without_dates:
  assumes "resolveType name opts = Inr (TIME, st)"
    and "snd (convertToDates h st vs) = []"
  shows "\<exists>c. newTableColumn h name vs opts = Inr c
     \<and> col_type c = (if Math_min vs = NaN then ENUM else SCALAR)
     \<and> col_dates c = Some [] \<and> col_julianDates c = Some []
     \<and> col_finishJulianDates c = None \<and> col_availabilities c = None \<and> col_clock c = None"
  by (simp add: unparsable_time_column [OF assms] initialColumn_def)

lemma resolveType_timeOptions: "resolveType name timeOptions = Inr (TIME, None)"
  by (simp add: resolveType_def timeOptions_def noOptions_def)

lemma no_date_foo: "snd (convertToDates scenarioHost None [JSString ''foo'']) = []"
  by (simp add: convertToDates_def chooseFormat_def firstPositionMaximumOf_def
      raiseMaximum_def parseInt_def value_defs js_greater_def js_greater_eq_def
      scenarioHost_def noDate_def Let_def)

lemma no_date_50: "snd (convertToDates scenarioHost None [JSString ''50'']) = []"
  by (simp add: convertToDates_def chooseFormat_def firstPositionMaximumOf_def
      raiseMaximum_def parseInt_def value_defs js_greater_def js_greater_eq_def
      scenarioHost_def scenarioDates_def Let_def)

lemma extremes_foo_50: "Math_min [JSString ''foo''] = NaN" "Math_min [JSString ''50''] = Fin 50"
  by (simp_all add: value_defs)

theorem time_column_without_dates_witness:
  "(\<exists>c. newTableColumn scenarioHost ''t'' [JSString ''foo''] timeOptions = Inr c
       \<and> col_type c = ENUM
       \<and> col_dates c = Some [] \<and> col_julianDates c = Some []
       \<and> col_finishJulianDates c = None \<and> col_availabilities c = None \<and> col_clock c = None)
   \<and> (\<exists>c. newTableColumn scenarioHost ''t'' [JSString ''50''] timeOptions = Inr c
       \<and> col_type c = SCALAR
       \<and> col_dates c = Some [] \<and> col_julianDates c = Some []
       \<and> col_finishJulianDates c = None \<and> col_availabilities c = None \<and> col_clock c = None)"
  using time_column_without_dates [OF resolveType_timeOptions no_date_foo, of "''t''"]
    time_column_without_dates [OF resolveType_timeOptions no_date_50, of "''t''"]
  by (simp add: extremes_foo_50)

text \<open>
  The claim as stated fails: a TIME column of the one cell \<open>foo\<close> ends with type ENUM,
  not SCALAR, and its dates are an empty array, not undefined.
\<close>

theorem time_column_without_dates_counterexample:
  "map_sum id col_type (newTableColumn scenarioHost ''t'' [JSString ''foo''] timeOptions)
     = Inr ENUM
   \<and> map_sum id col_dates (newTableColumn scenarioHost ''t'' [JSString ''foo''] timeOptions)
     = Inr (Some [])
   \<and> map_sum id col_julianDates (newTableColumn scenarioHost ''t'' [JSString ''foo''] timeOptions)
     = Inr (Some [])"
  by (simp add: unparsable_time_column [OF resolveType_timeOptions no_date_foo]
      initialColumn_def extremes_foo_50)

subsection \<open>Indices into the unique values\<close>

lemma set_foldl_addUnique: "set (foldl addUnique acc xs) = set acc \<union> set xs"
  by (induction xs arbitrary: acc) (auto simp: addUnique_def)

lemma set_getUniqueValues: "set (getUniqueValues xs) = set xs"
  by (simp add: getUniqueValues_def set_foldl_addUnique)

lemma strict_equals_eq: "strict_equals a b \<Longrightarrow> a = b"
  by (cases a; cases b) (auto simp: num_strict_equals_def split: if_splits)

lemma strict_equals_refl: "v \<noteq> JSNumber NaN \<Longrightarrow> strict_equals v v"
  by (cases v) (auto simp: num_strict_equals_def)

lemma js_indexOf_ge_minus1: "js_indexOf u v \<ge> - 1"
  by (induction u) (auto simp: Let_def)

lemma js_indexOf_found:
  "v \<in> set u \<Longrightarrow> v \<noteq> JSNumber NaN \<Longrightarrow> element u (js_indexOf u v) = Some v"
proof (induction u)
  case Nil
  then show ?case by simp
next
  case (Cons y ys)
  show ?case
  proof (cases "strict_equals y v")
    case True
    then show ?thesis using strict_equals_eq [OF True] by (simp add: element_def)
  next
    case False
    with Cons.prems strict_equals_refl have "v \<in> set ys" by auto
    then have ih: "element ys (js_indexOf ys v) = Some v" using Cons by simp
    then have "js_indexOf ys v \<noteq> - 1" by (auto simp: element_def split: if_splits)
    with ih False show ?thesis
      using js_indexOf_ge_minus1 [of ys v]
      by (auto simp: element_def Let_def nat_add_distrib split: if_splits)
  qed
qed

text \<open>
  After \<open>updateForType\<close>, when the column uses indices into the unique values, the
  indices are defined and the index of every row whose cell is not \<open>NaN\<close> points to that
  cell among the unique values.
\<close>

lemma updateForType_indices:
  assumes "usesIndicesIntoUniqueValues (updateForType c)"
  shows "\<exists>u idx. col_uniqueValues (updateForType c) = Some u
     \<and> col_indicesIntoUniqueValues (updateForType c) = Some idx
     \<and> length idx = length (col_values c)
     \<and> (\<forall>i<length idx. col_values c ! i \<noteq> JSNumber NaN \<longrightarrow>
           element u (idx ! i) = Some (col_values c ! i))"
proof -
  have u: "usesIndicesIntoUniqueValues c"
    using assms by (simp add: usesIndicesIntoUniqueValues_def)
  show ?thesis
    using u
    by (auto simp: updateForType_def usesIndicesIntoUniqueValues_def Let_def
        js_indexOf_found set_getUniqueValues split: option.splits)
qed

text \<open>After construction the indices are defined exactly when the column uses them.\<close>

lemma indices_after_construction:
  assumes "newTableColumn h name vs opts = Inr c"
  shows "(col_indicesIntoUniqueValues c \<noteq> None) = usesIndicesIntoUniqueValues c"
proof -
  obtain ts c1 where c1: "timeFields h (reviseForBadNumbers (initialColumn name vs opts (fst ts) (snd ts))
               (defaultValue (opt_replaceWithNullValues opts) defaultReplaceWithNullValues)) = Inr c1"
    and c: "c = updateForType (demoteToEnum c1)"
    using assms by (auto simp: newTableColumn_def split: sum.splits)
  have "col_indicesIntoUniqueValues c1 = None"
    using c1
    by (auto simp: timeFields_def Let_def reviseForBadNumbers_def initialColumn_def
        split: if_splits sum.splits)
  then have "col_indicesIntoUniqueValues (demoteToEnum c1) = None"
    by (simp add: demoteToEnum_def)
  then show ?thesis unfolding c
    by (auto simp: updateForType_def usesIndicesIntoUniqueValues_def Let_def split: option.splits)
qed

lemma set_type_indices:
  assumes "usesIndicesIntoUniqueValues (set_type t c)"
  shows "\<exists>u idx. col_uniqueValues (set_type t c) = Some u
     \<and> col_indicesIntoUniqueValues (set_type t c) = Some idx
     \<and> length idx = length (col_values c)
     \<and> (\<forall>i<length idx. col_values c ! i \<noteq> JSNumber NaN \<longrightarrow>
           element u (idx ! i) = Some (col_values c ! i))"
  using updateForType_indices [of "c\<lparr>col_type := t\<rparr>"] assms by (simp add: set_type_def)

text \<open>
  Claim C3 against the code. The column \<open>Revenue\<close> with strings for the amounts is built
  as an ENUM with the indices 0, 1, 2, 3. Setting its type to SCALAR clears the unique
  values but leaves the indices in place: they are still defined although the column
  no longer uses indices into the unique values.
\<close>

theorem indices_stay_after_type_change:
  "map_sum id (usesIndicesIntoUniqueValues \<circ> set_type SCALAR)
       (newTableColumn scenarioHost ''Revenue'' revenueStrings noOptions)
     = Inr False
   \<and> map_sum id (col_uniqueValues \<circ> set_type SCALAR)
       (newTableColumn scenarioHost ''Revenue'' revenueStrings noOptions)
     = Inr None
   \<and> map_sum id (col_indicesIntoUniqueValues \<circ> set_type SCALAR)
       (newTableColumn scenarioHost ''Revenue'' revenueStrings noOptions)
     = Inr (Some [0, 1, 2, 3])"
  unfolding revenue_strings
  by (simp add: initialColumn_def set_type_def updateForType_def
      usesIndicesIntoUniqueValues_def noOptions_def Let_def)

text \<open>A cell that is \<open>NaN\<close> is not found among the unique values: its index is -1.\<close>

lemma index_of_NaN_cell:
  "map_sum id col_indicesIntoUniqueValues
       (newTableColumn scenarioHost ''x'' [JSNumber NaN] (noOptions\<lparr>opt_type := Some ENUM\<rparr>))
     = Inr (Some [- 1])"
  by (simp add: newTableColumn_def resolveType_def noOptions_def initialColumn_def
      reviseForBadNumbers_def timeFields_def demoteToEnum_def updateForType_def
      usesIndicesIntoUniqueValues_def getUniqueValues_def addUnique_def value_defs
      num_strict_equals_def Let_def)

subsection \<open>The round trip of a quotient\<close>

text \<open>The largest double is \<open>2 ^ 1024 - 2 ^ 971\<close>; a number up to it is rounded to a finite double.\<close>

lemma toDouble_finite:
  assumes "\<bar>x\<bar> \<le> 2 ^ 1024 - 2 ^ 971"
  shows "toDouble x = Fin (roundToDouble x)"
proof -
  have p: "(2::real) ^ 1024 = 2 ^ 971 * 2 ^ 53" by (simp add: power_add [symmetric])
  have lt: "\<bar>x\<bar> < 2 ^ 1024"
  proof -
    have "(0::real) < 2 ^ 971" by simp
    with assms show ?thesis by linarith
  qed
  have e: "\<bar>roundToDouble x - x\<bar> \<le> \<bar>x\<bar> / 2 ^ 53 + 1 / 2 ^ 1075"
    by (rule roundToDouble_error_all [OF lt])
  have "\<bar>x\<bar> / 2 ^ 53 \<le> (2 ^ 1024 - 2 ^ 971) / 2 ^ 53"
    using assms by (rule divide_right_mono) simp
  also have "\<dots> = 2 ^ 971 - 2 ^ 918"
  proof -
    have "(2::real) ^ 971 = 2 ^ 918 * 2 ^ 53" by (simp add: power_add [symmetric])
    then show ?thesis by (simp add: p diff_divide_distrib)
  qed
  finally have d: "\<bar>x\<bar> / 2 ^ 53 \<le> 2 ^ 971 - 2 ^ 918" .
  have s: "(1::real) / 2 ^ 1075 < 2 ^ 918"
  proof -
    have "(1::real) / 2 ^ 1075 \<le> 1" by simp
    moreover have "(1::real) < 2 ^ 918" by (rule one_less_power) simp_all
    ultimately show ?thesis by linarith
  qed
  have "\<bar>roundToDouble x\<bar> \<le> \<bar>x\<bar> + (\<bar>x\<bar> / 2 ^ 53 + 1 / 2 ^ 1075)" using e by linarith
  also have "\<dots> < 2 ^ 1024" using assms d s by linarith
  finally have "\<bar>roundToDouble x\<bar> < 2 ^ 1024" .
  then show ?thesis by (auto simp: toDouble_def Let_def)
qed

lemma round_trip_zero:
  assumes "y \<noteq> 0"
  shows "js_divide (Fin 0) (Fin y) = Fin 0" and "js_multiply (Fin 0) (Fin y) = Fin 0"
  using assms by (simp_all add: toDouble_def roundToDouble_def)

lemma round_trip_error:
  assumes "y \<noteq> 0"
    and "1 / 2 ^ 1022 \<le> \<bar>x / y\<bar>" and "\<bar>x / y\<bar> \<le> 2 ^ 1024 - 2 ^ 971"
    and "\<bar>x\<bar> \<le> 2 ^ 1024 - 2 ^ 972"
  shows "\<exists>q p. js_divide (Fin x) (Fin y) = Fin q \<and> js_multiply (Fin q) (Fin y) = Fin p
           \<and> \<bar>p - x\<bar> \<le> 3 * \<bar>x\<bar> / 2 ^ 53 + 1 / 2 ^ 1075
           \<and> (1 / 2 ^ 1021 \<le> \<bar>x\<bar> \<longrightarrow> \<bar>p - x\<bar> \<le> 3 * \<bar>x\<bar> / 2 ^ 53)"
proof -
  define q where "q = roundToDouble (x / y)"
  define w where "w = q * y"
  define p where "p = roundToDouble w"
  have d: "js_divide (Fin x) (Fin y) = Fin q"
    using assms(1) toDouble_finite [OF assms(3)] by (simp add: q_def)
  have lt: "\<bar>x / y\<bar> < 2 ^ 1024"
  proof -
    have "(0::real) < 2 ^ 971" by simp
    with assms(3) show ?thesis by linarith
  qed
  have "\<bar>q - x / y\<bar> \<le> \<bar>x / y\<bar> / 2 ^ 53"
    unfolding q_def by (rule roundToDouble_error [OF assms(2) lt])
  then have "\<bar>q - x / y\<bar> * \<bar>y\<bar> \<le> \<bar>x / y\<bar> / 2 ^ 53 * \<bar>y\<bar>"
    by (intro mult_right_mono) simp_all
  moreover have "\<bar>q - x / y\<bar> * \<bar>y\<bar> = \<bar>w - x\<bar>"
    using assms(1) by (simp add: w_def abs_mult [symmetric] left_diff_distrib)
  moreover have "\<bar>x / y\<bar> / 2 ^ 53 * \<bar>y\<bar> = \<bar>x\<bar> / 2 ^ 53"
    using assms(1) by (simp add: abs_divide)
  ultimately have wx: "\<bar>w - x\<bar> \<le> \<bar>x\<bar> / 2 ^ 53" by simp
  have small: "\<bar>x\<bar> / 2 ^ 53 \<le> \<bar>x\<bar> / 4" by (rule divide_left_mono) simp_all
  have hi: "\<bar>w\<bar> \<le> 2 ^ 1024 - 2 ^ 971"
  proof -
    have "\<bar>x\<bar> / 2 ^ 53 \<le> (2 ^ 1024 - 2 ^ 972) / 2 ^ 53"
      using assms(4) by (rule divide_right_mono) simp
    also have "\<dots> = 2 ^ 971 - 2 ^ 919"
    proof -
      have "(2::real) ^ 1024 = 2 ^ 971 * 2 ^ 53" "(2::real) ^ 972 = 2 ^ 919 * 2 ^ 53"
        by (simp_all add: power_add [symmetric])
      then show ?thesis by (simp add: diff_divide_distrib)
    qed
    finally have "\<bar>x\<bar> / 2 ^ 53 \<le> 2 ^ 971 - 2 ^ 919" .
    moreover have "(2::real) ^ 972 = 2 * 2 ^ 971" by simp
    moreover have "(0::real) < 2 ^ 919" by simp
    moreover have "\<bar>w\<bar> \<le> \<bar>x\<bar> + \<bar>x\<bar> / 2 ^ 53" using wx by linarith
    ultimately show ?thesis using assms(4) by linarith
  qed
  have lt': "\<bar>w\<bar> < 2 ^ 1024"
  proof -
    have "(0::real) < 2 ^ 971" by simp
    with hi show ?thesis by linarith
  qed
  have m: "js_multiply (Fin q) (Fin y) = Fin p"
    using toDouble_finite [OF hi] by (simp add: p_def w_def)
  have w2: "\<bar>w\<bar> / 2 ^ 53 \<le> 2 * \<bar>x\<bar> / 2 ^ 53"
  proof -
    have "\<bar>w\<bar> \<le> 2 * \<bar>x\<bar>" using wx small by linarith
    then show ?thesis by (intro divide_right_mono) simp_all
  qed
  have sum: "2 * \<bar>x\<bar> / 2 ^ 53 + \<bar>x\<bar> / 2 ^ 53 = 3 * \<bar>x\<bar> / 2 ^ 53" by simp
  have tri: "\<bar>p - x\<bar> \<le> \<bar>p - w\<bar> + \<bar>w - x\<bar>" by linarith
  have a: "\<bar>p - x\<bar> \<le> 3 * \<bar>x\<bar> / 2 ^ 53 + 1 / 2 ^ 1075"
  proof -
    have "\<bar>p - w\<bar> \<le> \<bar>w\<bar> / 2 ^ 53 + 1 / 2 ^ 1075"
      unfolding p_def by (rule roundToDouble_error_all [OF lt'])
    then have "\<bar>p - x\<bar> \<le> 2 * \<bar>x\<bar> / 2 ^ 53 + \<bar>x\<bar> / 2 ^ 53 + 1 / 2 ^ 1075"
      using tri w2 wx by linarith
    then show ?thesis unfolding sum .
  qed
  have b: "\<bar>p - x\<bar> \<le> 3 * \<bar>x\<bar> / 2 ^ 53" if n: "1 / 2 ^ 1021 \<le> \<bar>x\<bar>"
  proof -
    have lo: "1 / 2 ^ 1022 \<le> \<bar>w\<bar>"
    proof -
      have h: "\<bar>x\<bar> / 2 \<le> \<bar>w\<bar>" using wx small by linarith
      have e: "(1::real) / 2 ^ 1021 / 2 = 1 / 2 ^ 1022" by simp
      have "1 / 2 ^ 1021 / 2 \<le> \<bar>x\<bar> / 2" using n by (rule divide_right_mono) simp
      then have "1 / 2 ^ 1022 \<le> \<bar>x\<bar> / 2" unfolding e .
      then show ?thesis using h by (rule order_trans)
    qed
    have "\<bar>p - w\<bar> \<le> \<bar>w\<bar> / 2 ^ 53"
      unfolding p_def by (rule roundToDouble_error [OF lo lt'])
    then have "\<bar>p - x\<bar> \<le> 2 * \<bar>x\<bar> / 2 ^ 53 + \<bar>x\<bar> / 2 ^ 53"
      using tri w2 wx by linarith
    then show ?thesis unfolding sum .
  qed
  from d m a b show ?thesis by blast
qed

lemma divideValues_nth:
  assumes "length (col_values a) = length (col_values b)" and "i < length (col_values b)"
  shows "divideValues a b None ! i =
           JSNumber (js_divide (ToNumber (col_values a ! i)) (ToNumber (col_values b ! i)))"
  using assms by (simp add: divideValues_def divideOne_def numberAt_def element_def)

text \<open>
  Claim C9, as the code has it. For columns \<open>a\<close> and \<open>b\<close> with the same number of rows
  and a row \<open>i\<close> where both cells are finite numbers and the cell of \<open>b\<close> is not 0:
  when the cell of \<open>a\<close> is 0, the quotient that \<open>divideValues\<close> returns, multiplied by
  the cell of \<open>b\<close>, is 0 again; when the exact quotient is in the range of the normal
  doubles (from \<open>1 / 2 ^ 1022\<close> to the largest double \<open>2 ^ 1024 - 2 ^ 971\<close>) and the
  cell of \<open>a\<close> is not the largest double, the product is a finite number within three
  parts in \<open>2 ^ 53\<close> of the cell of \<open>a\<close>, or within that and half the distance
  between the smallest doubles when the cell of \<open>a\<close> is below \<open>1 / 2 ^ 1021\<close>.
\<close>

theorem divide_then_multiply_up_to_rounding:
  assumes "length (col_values a) = length (col_values b)" and "i < length (col_values b)"
    and "col_values a ! i = JSNumber (Fin x)" and "col_values b ! i = JSNumber (Fin y)"
    and "y \<noteq> 0"
    and "x = 0 \<or> (1 / 2 ^ 1022 \<le> \<bar>x / y\<bar> \<and> \<bar>x / y\<bar> \<le> 2 ^ 1024 - 2 ^ 971
                   \<and> \<bar>x\<bar> \<le> 2 ^ 1024 - 2 ^ 972)"
  shows "\<exists>q p. divideValues a b None ! i = JSNumber (Fin q)
           \<and> js_multiply (Fin q) (ToNumber (col_values b ! i)) = Fin p
           \<and> (x = 0 \<longrightarrow> p = 0)
           \<and> (1 / 2 ^ 1021 \<le> \<bar>x\<bar> \<longrightarrow> \<bar>p - x\<bar> \<le> 3 * \<bar>x\<bar> / 2 ^ 53)
           \<and> \<bar>p - x\<bar> \<le> 3 * \<bar>x\<bar> / 2 ^ 53 + 1 / 2 ^ 1075"
proof (cases "x = 0")
  case True
  then show ?thesis
    using round_trip_zero [OF assms(5)] divideValues_nth [OF assms(1,2)] assms(3,4) by simp
next
  case False
  with assms(6) have r: "1 / 2 ^ 1022 \<le> \<bar>x / y\<bar>" "\<bar>x / y\<bar> \<le> 2 ^ 1024 - 2 ^ 971"
    "\<bar>x\<bar> \<le> 2 ^ 1024 - 2 ^ 972" by simp_all
  obtain q p where "js_divide (Fin x) (Fin y) = Fin q" "js_multiply (Fin q) (Fin y) = Fin p"
    "\<bar>p - x\<bar> \<le> 3 * \<bar>x\<bar> / 2 ^ 53 + 1 / 2 ^ 1075"
    "1 / 2 ^ 1021 \<le> \<bar>x\<bar> \<longrightarrow> \<bar>p - x\<bar> \<le> 3 * \<bar>x\<bar> / 2 ^ 53"
    using round_trip_error [OF assms(5) r] by blast
  then show ?thesis
    using False divideValues_nth [OF assms(1,2)] assms(3,4) by simp
qed

theorem divide_then_multiply_up_to_rounding_witness:
  "(\<exists>q p. divideValues numeratorColumn denominatorColumn None ! 0 = JSNumber (Fin q)
           \<and> js_multiply (Fin q) (ToNumber (col_values denominatorColumn ! 0)) = Fin p
           \<and> \<bar>p - 1\<bar> \<le> 3 / 2 ^ 53)
   \<and> (\<exists>q. divideValues (initialColumn ''a'' [JSNumber (Fin 0)] noOptions SCALAR None)
                denominatorColumn None ! 0 = JSNumber (Fin q)
           \<and> js_multiply (Fin q) (ToNumber (col_values denominatorColumn ! 0)) = Fin 0)"
proof -
  have c: "length (col_values numeratorColumn) = length (col_values denominatorColumn)"
    "0 < length (col_values denominatorColumn)"
    "col_values numeratorColumn ! 0 = JSNumber (Fin 1)"
    "col_values denominatorColumn ! 0 = JSNumber (Fin 49)"
    "length (col_values (initialColumn ''a'' [JSNumber (Fin 0)] noOptions SCALAR None))
      = length (col_values denominatorColumn)"
    "col_values (initialColumn ''a'' [JSNumber (Fin 0)] noOptions SCALAR None) ! 0 = JSNumber (Fin 0)"
    by (simp_all add: numeratorColumn_def denominatorColumn_def initialColumn_def)
  have n: "(49::real) \<noteq> 0" by simp
  have big: "(1::real) \<le> 2 ^ 1024 - 2 ^ 971" "(1::real) \<le> 2 ^ 1024 - 2 ^ 972"
  proof -
    have "(2::real) ^ 1024 = 2 ^ 52 * 2 ^ 972" "(2::real) ^ 972 = 2 * 2 ^ 971"
      by (simp_all add: power_add [symmetric])
    moreover have "(1::real) \<le> 2 ^ 971" by (rule one_le_power) simp
    ultimately show "(1::real) \<le> 2 ^ 1024 - 2 ^ 971" "(1::real) \<le> 2 ^ 1024 - 2 ^ 972"
      by simp_all
  qed
  have r: "(1::real) = 0 \<or> (1 / 2 ^ 1022 \<le> \<bar>1 / 49 :: real\<bar> \<and> \<bar>1 / 49 :: real\<bar> \<le> 2 ^ 1024 - 2 ^ 971
                   \<and> \<bar>1 :: real\<bar> \<le> 2 ^ 1024 - 2 ^ 972)"
    using big by simp
  have z: "(0::real) = 0 \<or> (1 / 2 ^ 1022 \<le> \<bar>0 / 49 :: real\<bar> \<and> \<bar>0 / 49 :: real\<bar> \<le> 2 ^ 1024 - 2 ^ 971
                   \<and> \<bar>0 :: real\<bar> \<le> 2 ^ 1024 - 2 ^ 972)"
    by simp
  show ?thesis
    using divide_then_multiply_up_to_rounding [OF c(1,2,3,4) n r]
      divide_then_multiply_up_to_rounding [OF c(5,2,6,4) n z]
    by auto
qed

text \<open>
  The claim as stated fails: 1 divided by 49 and multiplied by 49 again is the double
  just below 1.
\<close>

theorem divide_then_multiply_counterexample:
  "divideValues numeratorColumn denominatorColumn None
     = [JSNumber (Fin (5882252574524729 / 2 ^ 58))]
   \<and> js_multiply (Fin (5882252574524729 / 2 ^ 58)) (ToNumber (col_values denominatorColumn ! 0))
     = Fin (9007199254740991 / 2 ^ 53)
   \<and> Fin (9007199254740991 / 2 ^ 53) \<noteq> ToNumber (col_values numeratorColumn ! 0)"
  by (simp add: divideValues_def divideOne_def numberAt_def element_def numeratorColumn_def
      denominatorColumn_def initialColumn_def double_defs)

end
